theory Spec2Isabelle
  imports Complex_Main "HOL-Library.AList"
begin

section \<open>Python primitives used by the sources\<close>

text \<open>
  Exceptions are values.  Float values are HOL reals.  The timing arithmetic on Python
  floats and the generator's scaling are taken without rounding; the float32 addition and
  logarithm of the logarithm code round, see \<open>float32_ops\<close>.  The wall-clock readings of
  \<open>time.perf_counter\<close> are inputs of the model.
\<close>

datatype py_error =
    ZeroDivisionError | IndexError | TypeError | ValueError
  | RuntimeError | OSError | AssertionError | BackendError

text \<open>\<open>int(x)\<close> on a float truncates toward zero.\<close>

definition py_int :: "real \<Rightarrow> int" where
  "py_int x = (if 0 \<le> x then \<lfloor>x\<rfloor> else \<lceil>x\<rceil>)"

text \<open>\<open>a / b\<close> on floats raises when the divisor is zero.\<close>

definition py_truediv :: "real \<Rightarrow> real \<Rightarrow> py_error + real" where
  "py_truediv a b = (if b = 0 then Inl ZeroDivisionError else Inr (a / b))"

text \<open>\<open>str(n)\<close> for the f-strings that build the result names.\<close>

fun digits_of_nat :: "nat \<Rightarrow> string" where
  "digits_of_nat n =
     (if n < 10 then [char_of (48 + n)]
      else digits_of_nat (n div 10) @ [char_of (48 + n mod 10)])"

declare digits_of_nat.simps [simp del]

definition py_str_int :: "int \<Rightarrow> string" where
  "py_str_int i = (if i < 0 then CHR ''-'' # digits_of_nat (nat (- i)) else digits_of_nat (nat i))"

section \<open>benchmark/criteo\_preprocessing.py\<close>

subsection \<open>Tensors and the synthetic data generator\<close>

datatype dtype = Float32 | Int32

datatype tensor = FloatTensor "real list" | IntTensor "int list"

fun numel :: "tensor \<Rightarrow> nat" where
  "numel (FloatTensor xs) = length xs"
| "numel (IntTensor xs) = length xs"

fun tensor_dtype :: "tensor \<Rightarrow> dtype" where
  "tensor_dtype (FloatTensor xs) = Float32"
| "tensor_dtype (IntTensor xs) = Int32"

text \<open>\<open>data[:n]\<close> for \<open>n \<ge> 0\<close>.\<close>

fun slice_to :: "nat \<Rightarrow> tensor \<Rightarrow> tensor" where
  "slice_to n (FloatTensor xs) = FloatTensor (take n xs)"
| "slice_to n (IntTensor xs) = IntTensor (take n xs)"

text \<open>
  \<open>torch.randn(n)\<close>: \<open>n\<close> draws from the generator state, here the sample function
  \<open>rnd\<close>; a negative size raises.
\<close>

definition torch_randn :: "(nat \<Rightarrow> real) \<Rightarrow> int \<Rightarrow> py_error + real list" where
  "torch_randn rnd n = (if n < 0 then Inl RuntimeError else Inr (map rnd [0..<nat n]))"

text \<open>
  \<open>torch.randint(low, high, (n,))\<close>: \<open>n\<close> integer draws in \<open>[low, high)\<close>; raises unless
  \<open>low < high\<close> and \<open>n \<ge> 0\<close>.
\<close>

definition torch_randint :: "(nat \<Rightarrow> nat) \<Rightarrow> int \<Rightarrow> int \<Rightarrow> int \<Rightarrow> py_error + int list" where
  "torch_randint rndi low high n =
     (if high \<le> low \<or> n < 0 then Inl RuntimeError
      else Inr (map (\<lambda>i. low + int (rndi i) mod (high - low)) [0..<nat n]))"

text \<open>
  The element count \<open>int((size_mb * 1024 * 1024) / 4)\<close>, computed by the generator and
  again by the modulus benchmark.
\<close>

definition elements_of :: "real \<Rightarrow> int" where
  "elements_of size_mb = py_int ((size_mb * 1024 * 1024) / 4)"

text \<open>
  \<open>generate_synthetic_data(size_mb, dtype=torch.float32)\<close>.  The body never reads
  \<open>dtype\<close>.
\<close>

definition generate_synthetic_data :: "(nat \<Rightarrow> real) \<Rightarrow> real \<Rightarrow> dtype \<Rightarrow> py_error + tensor" where
  "generate_synthetic_data rnd size_mb dt =
     (let elements = elements_of size_mb in
      case torch_randn rnd elements of
        Inl e \<Rightarrow> Inl e
      | Inr z \<Rightarrow> Inr (FloatTensor (map (\<lambda>v. v * 2 - 0.5) z)))"

subsection \<open>Result records and the suite object\<close>

record BenchmarkResult =
  name :: string
  device :: string
  data_size_mb :: real
  iterations :: int
  total_time_s :: real
  throughput_gbs :: real
  speedup_vs_cpu :: real
  power_watts :: "real option"
  temperature_c :: "real option"

datatype BackendType = Silicon | Golden

datatype BackendDevice = Grayskull

record TFDevice =
  arch :: BackendDevice
  devtype :: BackendType

text \<open>
  The suite object; its attribute \<open>self.device\<close> is the field \<open>suite_device\<close> here, since
  \<open>device\<close> already names the label of a result record.
\<close>

record suite =
  device_type :: string
  verbose :: bool
  results :: "BenchmarkResult list"
  suite_device :: "TFDevice option"

text \<open>\<open>PIPERBenchmarkSuite.__init__\<close>; \<open>avail\<close> is the module flag \<open>PYBUDA_AVAILABLE\<close>.\<close>

definition suite_init :: "bool \<Rightarrow> string \<Rightarrow> bool \<Rightarrow> suite" where
  "suite_init avail dt vb =
     \<lparr> device_type = dt, verbose = vb, results = [],
       suite_device =
         (if avail then
            Some \<lparr> arch = Grayskull,
                   devtype = (if dt = ''silicon'' then Silicon else Golden) \<rparr>
          else None) \<rparr>"

subsection \<open>Tensor operations called by the benchmarks\<close>

text \<open>
  These are calls into the tensor library; they are modelled by its documented behaviour
  on one-dimensional tensors.  \<open>torch.log\<close> never raises: it yields \<open>-inf\<close> at zero and
  \<open>nan\<close> below zero.
\<close>

datatype fvalue = Finite real | NegInf | NaN

fun to_float :: "tensor \<Rightarrow> real list" where
  "to_float (FloatTensor xs) = xs"
| "to_float (IntTensor xs) = map real_of_int xs"

fun torch_abs :: "tensor \<Rightarrow> tensor" where
  "torch_abs (FloatTensor xs) = FloatTensor (map abs xs)"
| "torch_abs (IntTensor xs) = IntTensor (map abs xs)"

text \<open>
  Float32 arithmetic is not exact.  The two inexact operations of the logarithm code are
  parameters: \<open>fl_round\<close> is the rounding to float32, applied to a Python scalar entering
  a tensor operation and to the result of an addition; \<open>fl_log\<close> is the library's float32
  logarithm on a positive argument.
\<close>

record float32_ops =
  fl_round :: "real \<Rightarrow> real"
  fl_log :: "real \<Rightarrow> real"

definition add_scalar :: "float32_ops \<Rightarrow> tensor \<Rightarrow> real \<Rightarrow> tensor" where
  "add_scalar fp t c = FloatTensor (map (\<lambda>v. fl_round fp (v + fl_round fp c)) (to_float t))"

definition torch_clamp_min :: "tensor \<Rightarrow> real \<Rightarrow> tensor" where
  "torch_clamp_min t m = FloatTensor (map (\<lambda>v. max v m) (to_float t))"

definition log_value :: "float32_ops \<Rightarrow> real \<Rightarrow> fvalue" where
  "log_value fp x = (if 0 < x then Finite (fl_log fp x) else if x = 0 then NegInf else NaN)"

definition torch_log :: "float32_ops \<Rightarrow> tensor \<Rightarrow> fvalue list" where
  "torch_log fp t = map (log_value fp) (to_float t)"

text \<open>
  \<open>t % m\<close> on an integer tensor: the remainder has the sign of the divisor, as HOL's
  \<open>mod\<close> on \<open>int\<close>; a zero divisor raises as soon as an element is computed.  Elements
  and divisor are unbounded integers here; a divisor outside the 32-bit range is not
  distinguished.
\<close>

definition torch_remainder :: "int list \<Rightarrow> int \<Rightarrow> py_error + int list" where
  "torch_remainder xs m =
     (if m = 0 \<and> xs \<noteq> [] then Inl RuntimeError else Inr (map (\<lambda>v. v mod m) xs))"

text \<open>The small offset \<open>1e-7\<close> of the logarithm code.\<close>

definition log_eps :: real where
  "log_eps = 1 / 10 ^ 7"

text \<open>The input of the logarithm benchmark: \<open>torch.abs(raw) + 1e-7\<close>.\<close>

definition logarithm_data :: "float32_ops \<Rightarrow> tensor \<Rightarrow> tensor" where
  "logarithm_data fp raw = add_scalar fp (torch_abs raw) log_eps"

text \<open>\<open>LogOp.forward\<close>: \<open>torch.log(x + 1e-7)\<close>.\<close>

definition LogOp_forward :: "float32_ops \<Rightarrow> tensor \<Rightarrow> fvalue list" where
  "LogOp_forward fp x = torch_log fp (add_scalar fp x log_eps)"

text \<open>\<open>Neg2ZeroOp.forward\<close>: \<open>torch.clamp(x, min=0.0)\<close>.\<close>

definition Neg2ZeroOp_forward :: "tensor \<Rightarrow> tensor" where
  "Neg2ZeroOp_forward x = torch_clamp_min x 0"

subsection \<open>The embedding table of the tensor library\<close>

text \<open>
  \<open>nn.Embedding(num, dim, padding_idx)\<close> and its call are library code; they are modelled by
  the library's documented behaviour: the constructor normalises a negative padding index,
  rejects one outside \<open>[-num, num)\<close>, draws the table (here from \<open>w_rnd\<close>) and zeroes the
  padding row; a call returns the rows at the given indices and raises \<open>IndexError\<close> at an
  index outside \<open>[0, num)\<close>.
\<close>

record Embedding =
  num_embeddings :: int
  emb_dim :: int
  padding_idx :: "int option"
  weight :: "real list list"

definition table_of :: "(nat \<Rightarrow> nat \<Rightarrow> real) \<Rightarrow> int \<Rightarrow> int \<Rightarrow> real list list" where
  "table_of w_rnd num edim = map (\<lambda>i. map (\<lambda>j. w_rnd i j) [0..<nat edim]) [0..<nat num]"

definition normalise_padding :: "int \<Rightarrow> int option \<Rightarrow> py_error + int option" where
  "normalise_padding num pad =
     (case pad of
        None \<Rightarrow> Inr None
      | Some p \<Rightarrow>
          if 0 < p then (if p < num then Inr (Some p) else Inl AssertionError)
          else if p < 0 then (if - num \<le> p then Inr (Some (num + p)) else Inl AssertionError)
          else Inr (Some p))"

text \<open>\<open>t[i]\<close> on the first dimension of a tensor with \<open>n\<close> rows: a row number, or \<open>IndexError\<close>.\<close>

definition row_index :: "nat \<Rightarrow> int \<Rightarrow> py_error + nat" where
  "row_index n i =
     (if 0 \<le> i \<and> i < int n then Inr (nat i)
      else if - int n \<le> i \<and> i < 0 then Inr (nat (int n + i))
      else Inl IndexError)"

text \<open>\<open>w[i].fill_(0)\<close>.\<close>

definition fill_row_zero :: "real list list \<Rightarrow> int \<Rightarrow> py_error + real list list" where
  "fill_row_zero w i =
     (case row_index (length w) i of
        Inl e \<Rightarrow> Inl e
      | Inr k \<Rightarrow> Inr (w[k := replicate (length (w ! k)) 0]))"

definition nn_Embedding ::
  "(nat \<Rightarrow> nat \<Rightarrow> real) \<Rightarrow> int \<Rightarrow> int \<Rightarrow> int option \<Rightarrow> py_error + Embedding" where
  "nn_Embedding w_rnd num edim pad =
     (case normalise_padding num pad of
        Inl e \<Rightarrow> Inl e
      | Inr pad' \<Rightarrow>
          if num < 0 \<or> edim < 0 then Inl RuntimeError
          else
            (case pad' of
               None \<Rightarrow>
                 Inr \<lparr> num_embeddings = num, emb_dim = edim, padding_idx = None,
                       weight = table_of w_rnd num edim \<rparr>
             | Some p \<Rightarrow>
                 (case fill_row_zero (table_of w_rnd num edim) p of
                    Inl e \<Rightarrow> Inl e
                  | Inr w \<Rightarrow>
                      Inr \<lparr> num_embeddings = num, emb_dim = edim, padding_idx = Some p,
                            weight = w \<rparr>)))"

definition lookup_row :: "real list list \<Rightarrow> int \<Rightarrow> py_error + real list" where
  "lookup_row w i = (if 0 \<le> i \<and> i < int (length w) then Inr (w ! nat i) else Inl IndexError)"

fun lookup_seq :: "real list list \<Rightarrow> int list \<Rightarrow> py_error + real list list" where
  "lookup_seq w [] = Inr []"
| "lookup_seq w (i # is) =
     (case lookup_row w i of
        Inl e \<Rightarrow> Inl e
      | Inr r \<Rightarrow> (case lookup_seq w is of Inl e \<Rightarrow> Inl e | Inr rs \<Rightarrow> Inr (r # rs)))"

fun lookup_batch :: "real list list \<Rightarrow> int list list \<Rightarrow> py_error + real list list list" where
  "lookup_batch w [] = Inr []"
| "lookup_batch w (row # rows) =
     (case lookup_seq w row of
        Inl e \<Rightarrow> Inl e
      | Inr r \<Rightarrow> (case lookup_batch w rows of Inl e \<Rightarrow> Inl e | Inr rs \<Rightarrow> Inr (r # rs)))"

text \<open>Calling the module on a \<open>(batch, seq_len)\<close> tensor of indices.\<close>

definition Embedding_call :: "Embedding \<Rightarrow> int list list \<Rightarrow> py_error + real list list list" where
  "Embedding_call emb indices = lookup_batch (weight emb) indices"

text \<open>\<open>torch.randint(low, high, (b, s))\<close>.\<close>

definition torch_randint2 ::
  "(nat \<Rightarrow> nat) \<Rightarrow> int \<Rightarrow> int \<Rightarrow> int \<Rightarrow> int \<Rightarrow> py_error + int list list" where
  "torch_randint2 rndi low high b s =
     (if high \<le> low \<or> b < 0 \<or> s < 0 then Inl RuntimeError
      else Inr (map (\<lambda>r. map (\<lambda>c. low + int (rndi (r * nat s + c)) mod (high - low))
                            [0..<nat s]) [0..<nat b]))"

definition nelement :: "'a list list \<Rightarrow> nat" where
  "nelement rows = sum_list (map length rows)"

subsection \<open>What a benchmark executes\<close>

text \<open>
  The operator outputs are discarded by the source (\<open>_ = ...\<close>); the model records each
  operator call with the number of elements it produced.  A timing loop calls the same
  operator on the same batch \<open>range(iterations)\<close> times and stops at the first call that
  raises.  The accelerator run either raises (in \<open>pybuda.compile\<close> or in a compiled call) or
  takes \<open>hw_time\<close> seconds.
\<close>

text \<open>
  The batch size \<open>min(1024 * 1024, data.shape[0])\<close> of a benchmark whose data has
  \<open>elements_of size_mb\<close> elements.
\<close>

definition batch_elements :: "real \<Rightarrow> nat" where
  "batch_elements size_mb = min (1024 * 1024) (nat (elements_of size_mb))"

datatype event =
    CpuIter nat
  | Compile BackendType
  | Warmup nat
  | HwIter nat

datatype hw_outcome = HwRaises | HwTime real

fun timing_loop :: "nat \<Rightarrow> py_error + event \<Rightarrow> py_error + event list" where
  "timing_loop 0 call = Inr []"
| "timing_loop (Suc n) call =
     (case call of
        Inl e \<Rightarrow> Inl e
      | Inr ev \<Rightarrow> (case timing_loop n call of Inl e \<Rightarrow> Inl e | Inr evs \<Rightarrow> Inr (ev # evs)))"

definition hw_trace :: "BackendType \<Rightarrow> nat \<Rightarrow> int \<Rightarrow> event list" where
  "hw_trace bt n iters = Compile bt # replicate 10 (Warmup n) @ replicate (nat iters) (HwIter n)"

text \<open>
  The part the three float and integer benchmarks share after the CPU loop: the CPU-only
  return, or compile, warm up, time the device and return.  \<open>nm\<close> is the result name,
  \<open>lbl\<close> the label \<open>self.device_type\<close>, \<open>total_bytes\<close> the integer
  \<open>batch_size * 4 * iterations\<close>.
\<close>

definition cpu_result ::
  "string \<Rightarrow> real \<Rightarrow> int \<Rightarrow> int \<Rightarrow> real \<Rightarrow> py_error + BenchmarkResult" where
  "cpu_result nm size_mb iters total_bytes cpu_time =
     (case py_truediv (real_of_int total_bytes / 10 ^ 9) cpu_time of
        Inl e \<Rightarrow> Inl e
      | Inr throughput \<Rightarrow>
          Inr \<lparr> name = nm, device = ''CPU'', data_size_mb = size_mb, iterations = iters,
                total_time_s = cpu_time, throughput_gbs = throughput, speedup_vs_cpu = 1,
                power_watts = None, temperature_c = None \<rparr>)"

definition hw_result ::
  "string \<Rightarrow> string \<Rightarrow> real \<Rightarrow> int \<Rightarrow> int \<Rightarrow> real \<Rightarrow> real \<Rightarrow> py_error + BenchmarkResult" where
  "hw_result nm lbl size_mb iters total_bytes cpu_time hw_time =
     (case py_truediv (real_of_int total_bytes / 10 ^ 9) hw_time of
        Inl e \<Rightarrow> Inl e
      | Inr throughput \<Rightarrow>
          (case py_truediv cpu_time hw_time of
             Inl e \<Rightarrow> Inl e
           | Inr speedup \<Rightarrow>
               Inr \<lparr> name = nm, device = lbl, data_size_mb = size_mb, iterations = iters,
                     total_time_s = hw_time, throughput_gbs = throughput,
                     speedup_vs_cpu = speedup,
                     power_watts = None, temperature_c = None \<rparr>))"

definition benchmark_neg2zero ::
  "bool \<Rightarrow> suite \<Rightarrow> (nat \<Rightarrow> real) \<Rightarrow> real \<Rightarrow> int \<Rightarrow> real \<Rightarrow> hw_outcome
     \<Rightarrow> py_error + (BenchmarkResult \<times> event list)" where
  "benchmark_neg2zero avail s rnd size_mb iters cpu_time hw =
     (case generate_synthetic_data rnd size_mb Float32 of
        Inl e \<Rightarrow> Inl e
      | Inr data \<Rightarrow>
          let batch_size = min (1024 * 1024) (numel data);
              batch = slice_to batch_size data
          in
          (case timing_loop (nat iters) (Inr (CpuIter (numel (torch_clamp_min batch 0)))) of
             Inl e \<Rightarrow> Inl e
           | Inr cpu_loop \<Rightarrow>
               if \<not> avail \<or> suite_device s = None then
                 (case cpu_result ''Neg2Zero'' size_mb iters (int batch_size * 4 * iters) cpu_time of
                    Inl e \<Rightarrow> Inl e
                  | Inr r \<Rightarrow> Inr (r, cpu_loop))
               else
                 (case hw of
                    HwRaises \<Rightarrow> Inl BackendError
                  | HwTime hw_time \<Rightarrow>
                      (case hw_result ''Neg2Zero'' (device_type s) size_mb iters
                              (int batch_size * 4 * iters) cpu_time hw_time of
                         Inl e \<Rightarrow> Inl e
                       | Inr r \<Rightarrow>
                           Inr (r, cpu_loop @
                                   hw_trace (devtype (the (suite_device s)))
                                     (numel (Neg2ZeroOp_forward batch)) iters)))))"

definition benchmark_logarithm ::
  "bool \<Rightarrow> suite \<Rightarrow> float32_ops \<Rightarrow> (nat \<Rightarrow> real) \<Rightarrow> real \<Rightarrow> int \<Rightarrow> real \<Rightarrow> hw_outcome
     \<Rightarrow> py_error + (BenchmarkResult \<times> event list)" where
  "benchmark_logarithm avail s fp rnd size_mb iters cpu_time hw =
     (case generate_synthetic_data rnd size_mb Float32 of
        Inl e \<Rightarrow> Inl e
      | Inr raw \<Rightarrow>
          let data = logarithm_data fp raw;
              batch_size = min (1024 * 1024) (numel data);
              batch = slice_to batch_size data
          in
          (case timing_loop (nat iters) (Inr (CpuIter (length (torch_log fp batch)))) of
             Inl e \<Rightarrow> Inl e
           | Inr cpu_loop \<Rightarrow>
               if \<not> avail \<or> suite_device s = None then
                 (case cpu_result ''Logarithm'' size_mb iters (int batch_size * 4 * iters) cpu_time of
                    Inl e \<Rightarrow> Inl e
                  | Inr r \<Rightarrow> Inr (r, cpu_loop))
               else
                 (case hw of
                    HwRaises \<Rightarrow> Inl BackendError
                  | HwTime hw_time \<Rightarrow>
                      (case hw_result ''Logarithm'' (device_type s) size_mb iters
                              (int batch_size * 4 * iters) cpu_time hw_time of
                         Inl e \<Rightarrow> Inl e
                       | Inr r \<Rightarrow>
                           Inr (r, cpu_loop @
                                   hw_trace (devtype (the (suite_device s)))
                                     (length (LogOp_forward fp batch)) iters)))))"

text \<open>
  \<open>benchmark_modulus\<close> has no accelerator path: it always times the CPU loop and always
  stores the speedup \<open>1.0\<close>; only the label depends on \<open>PYBUDA_AVAILABLE\<close>.
\<close>

definition benchmark_modulus ::
  "bool \<Rightarrow> suite \<Rightarrow> (nat \<Rightarrow> nat) \<Rightarrow> real \<Rightarrow> int \<Rightarrow> int \<Rightarrow> real
     \<Rightarrow> py_error + (BenchmarkResult \<times> event list)" where
  "benchmark_modulus avail s rndi size_mb iters mod_value cpu_time =
     (let elements = elements_of size_mb in
      case torch_randint rndi 0 10000 elements of
        Inl e \<Rightarrow> Inl e
      | Inr data \<Rightarrow>
          let batch_size = min (1024 * 1024) (length data) in
          (case timing_loop (nat iters)
                  (case torch_remainder (take batch_size data) mod_value of
                     Inl e \<Rightarrow> Inl e
                   | Inr out \<Rightarrow> Inr (CpuIter (length out))) of
             Inl e \<Rightarrow> Inl e
           | Inr cpu_loop \<Rightarrow>
               (case py_truediv (real_of_int (int batch_size * 4 * iters) / 10 ^ 9) cpu_time of
                  Inl e \<Rightarrow> Inl e
                | Inr throughput \<Rightarrow>
                    Inr (\<lparr> name = ''Modulus(mod='' @ py_str_int mod_value @ '')'',
                           device = (if \<not> avail then ''CPU'' else device_type s),
                           data_size_mb = size_mb, iterations = iters,
                           total_time_s = cpu_time, throughput_gbs = throughput,
                           speedup_vs_cpu = 1,
                           power_watts = None, temperature_c = None \<rparr>, cpu_loop))))"

definition benchmark_vocabmap ::
  "bool \<Rightarrow> suite \<Rightarrow> (nat \<Rightarrow> nat) \<Rightarrow> (nat \<Rightarrow> nat \<Rightarrow> real) \<Rightarrow> int \<Rightarrow> int \<Rightarrow> int \<Rightarrow> int
     \<Rightarrow> int \<Rightarrow> real \<Rightarrow> hw_outcome \<Rightarrow> py_error + (BenchmarkResult \<times> event list)" where
  "benchmark_vocabmap avail s rndi w_rnd vocab_size embedding_dim batch_size seq_len
       iters cpu_time hw =
     (case torch_randint2 rndi 0 vocab_size batch_size seq_len of
        Inl e \<Rightarrow> Inl e
      | Inr indices \<Rightarrow>
          (case nn_Embedding w_rnd vocab_size embedding_dim None of
             Inl e \<Rightarrow> Inl e
           | Inr cpu_embedding \<Rightarrow>
               (case timing_loop (nat iters)
                       (case Embedding_call cpu_embedding indices of
                          Inl e \<Rightarrow> Inl e
                        | Inr out \<Rightarrow> Inr (CpuIter (nelement out))) of
                  Inl e \<Rightarrow> Inl e
                | Inr cpu_loop \<Rightarrow>
                    let input_bytes = int (nelement indices) * 4;
                        output_bytes = batch_size * seq_len * embedding_dim * 4;
                        total_bytes = (input_bytes + output_bytes) * iters;
                        nm = ''VocabMap(vocab='' @ py_str_int vocab_size @ '',dim='' @
                             py_str_int embedding_dim @ '')''
                    in
                    if \<not> avail \<or> suite_device s = None then
                      (case cpu_result nm (real_of_int total_bytes / (1024 * 1024)) iters
                              total_bytes cpu_time of
                         Inl e \<Rightarrow> Inl e
                       | Inr r \<Rightarrow> Inr (r, cpu_loop))
                    else
                      (case hw of
                         HwRaises \<Rightarrow> Inl BackendError
                       | HwTime hw_time \<Rightarrow>
                           (case hw_result nm (device_type s)
                                   (real_of_int total_bytes / (1024 * 1024)) iters
                                   total_bytes cpu_time hw_time of
                              Inl e \<Rightarrow> Inl e
                            | Inr r \<Rightarrow>
                                Inr (r, cpu_loop @
                                        hw_trace (devtype (the (suite_device s)))
                                          (nelement indices) iters))))))"

subsection \<open>The suite run\<close>

text \<open>
  Everything a suite run reads from outside: the random draws of each benchmark, the
  elapsed seconds of each CPU loop and the outcome of each accelerator run.
\<close>

record suite_env =
  fp_ops :: float32_ops
  rnd_neg2zero :: "nat \<Rightarrow> real"
  rnd_logarithm :: "nat \<Rightarrow> real"
  rnd_modulus :: "nat \<Rightarrow> nat"
  rnd_indices :: "nat \<Rightarrow> nat"
  rnd_weight :: "nat \<Rightarrow> nat \<Rightarrow> real"
  cpu_neg2zero :: real
  hw_neg2zero :: hw_outcome
  cpu_logarithm :: real
  hw_logarithm :: hw_outcome
  cpu_modulus :: real
  cpu_vocabmap :: real
  hw_vocabmap :: hw_outcome

definition run_full_suite ::
  "bool \<Rightarrow> suite \<Rightarrow> suite_env \<Rightarrow> real \<Rightarrow> int
     \<Rightarrow> py_error + (suite \<times> BenchmarkResult list \<times> event list)" where
  "run_full_suite avail s env size_mb iters =
     (case benchmark_neg2zero avail s (rnd_neg2zero env) size_mb iters
             (cpu_neg2zero env) (hw_neg2zero env) of
        Inl e \<Rightarrow> Inl e
      | Inr (r1, t1) \<Rightarrow>
     (case benchmark_logarithm avail s (fp_ops env) (rnd_logarithm env) size_mb iters
             (cpu_logarithm env) (hw_logarithm env) of
        Inl e \<Rightarrow> Inl e
      | Inr (r2, t2) \<Rightarrow>
     (case benchmark_modulus avail s (rnd_modulus env) size_mb iters 100 (cpu_modulus env) of
        Inl e \<Rightarrow> Inl e
      | Inr (r3, t3) \<Rightarrow>
     (case benchmark_vocabmap avail s (rnd_indices env) (rnd_weight env) 10000 128 32 256
             iters (cpu_vocabmap env) (hw_vocabmap env) of
        Inl e \<Rightarrow> Inl e
      | Inr (r4, t4) \<Rightarrow>
          Inr (s\<lparr> results := results s @ [r1, r2, r3, r4] \<rparr>,
               [r1, r2, r3, r4], t1 @ t2 @ t3 @ t4)))))"

subsection \<open>Writing the report\<close>

text \<open>
  A file system maps a path to its content.  \<open>open(path, 'w')\<close> truncates the file;
  \<open>json.dump\<close> writes the chunks of the encoder one by one; leaving the \<open>with\<close> block
  closes the file.  The fault says where the operating system fails, if it does:
  at the open, at the write of chunk number \<open>k\<close>, or at the close with \<open>n\<close> characters
  on disk.  No handler surrounds any of the three steps.
\<close>

type_synonym fs = "string \<rightharpoonup> string"

datatype io_fault = NoFault | OpenFails | WriteFails nat | CloseFails nat

fun dump_chunks :: "string list \<Rightarrow> nat option \<Rightarrow> string \<Rightarrow> string \<times> bool" where
  "dump_chunks [] k acc = (acc, True)"
| "dump_chunks (c # cs) k acc =
     (if k = Some 0 then (acc, False)
      else dump_chunks cs (map_option (\<lambda>n. n - 1) k) (acc @ c))"

definition write_json :: "io_fault \<Rightarrow> string list \<Rightarrow> string \<Rightarrow> fs \<Rightarrow> fs \<times> (py_error + unit)" where
  "write_json fault chunks path files =
     (case fault of
        OpenFails \<Rightarrow> (files, Inl OSError)
      | WriteFails k \<Rightarrow>
          (case dump_chunks chunks (Some k) [] of
             (written, ok) \<Rightarrow>
               (files(path \<mapsto> written), if ok then Inr () else Inl OSError))
      | CloseFails n \<Rightarrow>
          (files(path \<mapsto> take n (fst (dump_chunks chunks None []))), Inl OSError)
      | NoFault \<Rightarrow> (files(path \<mapsto> fst (dump_chunks chunks None [])), Inr ()))"

record report =
  rep_device :: string
  rep_timestamp :: string
  rep_results :: "BenchmarkResult list"

text \<open>
  \<open>save_results\<close>; \<open>enc\<close> is the JSON encoder (\<open>json.dump\<close> with \<open>indent=2\<close>), \<open>ts\<close> the
  formatted local time.
\<close>

definition report_of :: "suite \<Rightarrow> string \<Rightarrow> report" where
  "report_of s ts =
     \<lparr> rep_device = device_type s, rep_timestamp = ts, rep_results = results s \<rparr>"

definition save_results ::
  "(report \<Rightarrow> string list) \<Rightarrow> io_fault \<Rightarrow> suite \<Rightarrow> string \<Rightarrow> string \<Rightarrow> fs
     \<Rightarrow> fs \<times> (py_error + unit)" where
  "save_results enc fault s ts output_path files =
     (let data = report_of s ts
      in write_json fault (enc data) output_path files)"

subsection \<open>The command line\<close>

datatype device_choice = Dev_silicon | Dev_golden | Dev_cpu

datatype size_choice = Small | Medium | Large

fun device_string :: "device_choice \<Rightarrow> string" where
  "device_string Dev_silicon = ''silicon''"
| "device_string Dev_golden = ''golden''"
| "device_string Dev_cpu = ''cpu''"

fun size_map :: "size_choice \<Rightarrow> real" where
  "size_map Small = 10"
| "size_map Medium = 100"
| "size_map Large = 1000"

record bench_args =
  arg_device :: device_choice
  arg_size :: size_choice
  arg_iterations :: int
  arg_output :: "string option"

text \<open>
  \<open>main\<close> of the benchmark; console output is not modelled.  The result is the file
  system afterwards and either the exception that ended the process or the exit code.
\<close>

definition bench_main ::
  "bool \<Rightarrow> suite_env \<Rightarrow> (report \<Rightarrow> string list) \<Rightarrow> io_fault \<Rightarrow> string \<Rightarrow> bench_args \<Rightarrow> fs
     \<Rightarrow> fs \<times> (py_error + int)" where
  "bench_main avail env enc fault ts args files =
     (let data_size_mb = size_map (arg_size args);
          suite0 = suite_init avail (device_string (arg_device args)) True
      in
      case run_full_suite avail suite0 env data_size_mb (arg_iterations args) of
        Inl e \<Rightarrow> (files, Inl e)
      | Inr (suite1, rs, tr) \<Rightarrow>
          (case arg_output args of
             None \<Rightarrow> (files, Inr 0)
           | Some path \<Rightarrow>
               (case save_results enc fault suite1 ts path files of
                  (files', Inl e) \<Rightarrow> (files', Inl e)
                | (files', Inr u) \<Rightarrow> (files', Inr 0))))"

section \<open>examples/vocab\_mapper.py\<close>

record VocabMapperPipeline =
  vocab_size :: int
  embedding_dim :: int
  embedding :: Embedding

text \<open>
  \<open>VocabMapperPipeline.__init__\<close>.  \<open>nn.init.xavier_uniform_\<close> overwrites the whole
  table with fresh draws (here \<open>xav\<close>), after dividing by \<open>fan_in + fan_out\<close>; the
  source then zeroes the row \<open>weight[padding_idx]\<close> again.
\<close>

definition VocabMapperPipeline_init ::
  "(nat \<Rightarrow> nat \<Rightarrow> real) \<Rightarrow> (nat \<Rightarrow> nat \<Rightarrow> real) \<Rightarrow> int \<Rightarrow> int \<Rightarrow> int option
     \<Rightarrow> py_error + VocabMapperPipeline" where
  "VocabMapperPipeline_init w_rnd xav vsize edim pad =
     (case nn_Embedding w_rnd vsize edim pad of
        Inl e \<Rightarrow> Inl e
      | Inr emb \<Rightarrow>
          if vsize + edim = 0 then Inl ZeroDivisionError
          else
            (case pad of
               None \<Rightarrow>
                 Inr \<lparr> vocab_size = vsize, embedding_dim = edim,
                       embedding = emb\<lparr> weight := table_of xav vsize edim \<rparr> \<rparr>
             | Some p \<Rightarrow>
                 (case fill_row_zero (table_of xav vsize edim) p of
                    Inl e \<Rightarrow> Inl e
                  | Inr w \<Rightarrow>
                      Inr \<lparr> vocab_size = vsize, embedding_dim = edim,
                            embedding = emb\<lparr> weight := w \<rparr> \<rparr>)))"

text \<open>\<open>VocabMapperPipeline.forward\<close>: \<open>self.embedding(indices)\<close>.\<close>

definition forward :: "VocabMapperPipeline \<Rightarrow> int list list \<Rightarrow> py_error + real list list list" where
  "forward p indices = Embedding_call (embedding p) indices"

section \<open>monitoring/monitor.py\<close>

subsection \<open>JSON values and the metrics dictionary\<close>

datatype json =
    JNull | JBool bool | JNum real | JStr string
  | JArr "json list" | JObj "(string \<times> json) list"

text \<open>
  A metrics dictionary in insertion order.  Keys are compared structurally; Python's
  identification of \<open>True\<close>, \<open>1\<close> and \<open>1.0\<close> as one key is not modelled.
\<close>

type_synonym metrics = "(json \<times> json) list"

fun hashable :: "json \<Rightarrow> bool" where
  "hashable (JArr xs) = False"
| "hashable (JObj kvs) = False"
| "hashable j = True"

text \<open>
  \<open>dict.update(other)\<close>.  A mapping is merged.  Anything else is iterated, and each item
  must itself be a sequence of exactly two items, the key and the value: a value that
  cannot be iterated is a \<open>TypeError\<close>, a wrong item length a \<open>ValueError\<close>.
\<close>

definition pair_of :: "json \<Rightarrow> py_error + (json \<times> json)" where
  "pair_of x =
     (case x of
        JArr [k, v] \<Rightarrow> if hashable k then Inr (k, v) else Inl TypeError
      | JArr ys \<Rightarrow> Inl ValueError
      | JStr [a, b] \<Rightarrow> Inr (JStr [a], JStr [b])
      | JStr cs \<Rightarrow> Inl ValueError
      | JObj [(k1, v1), (k2, v2)] \<Rightarrow> Inr (JStr k1, JStr k2)
      | JObj kvs \<Rightarrow> Inl ValueError
      | _ \<Rightarrow> Inl TypeError)"

fun update_pairs :: "metrics \<Rightarrow> json list \<Rightarrow> py_error + metrics" where
  "update_pairs d [] = Inr d"
| "update_pairs d (x # xs) =
     (case pair_of x of
        Inl e \<Rightarrow> Inl e
      | Inr (k, v) \<Rightarrow> update_pairs (AList.update k v d) xs)"

definition dict_update :: "metrics \<Rightarrow> json \<Rightarrow> py_error + metrics" where
  "dict_update d other =
     (case other of
        JObj kvs \<Rightarrow> Inr (fold (\<lambda>(k, v). AList.update (JStr k) v) kvs d)
      | JArr xs \<Rightarrow> update_pairs d xs
      | JStr cs \<Rightarrow> update_pairs d (map (\<lambda>c. JStr [c]) cs)
      | _ \<Rightarrow> Inl TypeError)"

subsection \<open>One poll\<close>

text \<open>
  What \<open>subprocess.run\<close> of the diagnostic tool does: it times out, the executable is
  missing, it raises something else (a permission or decoding error), or it completes with
  a return code and a standard output that \<open>json.loads\<close> either rejects (\<open>None\<close>) or
  parses.
\<close>

datatype proc_outcome =
    TimeoutExpired
  | ToolNotFound
  | ProcRaises py_error
  | Completed int "json option"

text \<open>
  \<open>get_tt_smi_metrics\<close>: the handler catches the timeout, the missing executable and the
  decoding error; the parsed value is returned as it is.
\<close>

definition get_tt_smi_metrics :: "proc_outcome \<Rightarrow> py_error + json" where
  "get_tt_smi_metrics pr =
     (case pr of
        TimeoutExpired \<Rightarrow> Inr (JObj [])
      | ToolNotFound \<Rightarrow> Inr (JObj [])
      | ProcRaises e \<Rightarrow> Inl e
      | Completed rc out \<Rightarrow>
          if rc = 0 then (case out of None \<Rightarrow> Inr (JObj []) | Some j \<Rightarrow> Inr j)
          else Inr (JObj []))"

text \<open>
  Reading the sensor file: it is missing, it cannot be opened or read, its text is not an
  integer for \<open>int\<close>, or it holds an integer.  Only the missing file is handled.  An
  integer too large for the float division (an \<open>OverflowError\<close>) is not distinguished from
  other integers.
\<close>

datatype sensor_read =
    SensorMissing
  | SensorUnreadable
  | SensorNotInteger
  | SensorValue int

definition get_system_metrics :: "string \<Rightarrow> sensor_read \<Rightarrow> proc_outcome \<Rightarrow> py_error + metrics" where
  "get_system_metrics now sensor pr =
     (let metrics0 = [(JStr ''timestamp'', JStr now)] in
      case (case sensor of
              SensorValue temp_raw \<Rightarrow>
                Inr (AList.update (JStr ''temperature_c'') (JNum (real_of_int temp_raw / 1000)) metrics0)
            | SensorMissing \<Rightarrow> Inr (AList.update (JStr ''temperature_c'') JNull metrics0)
            | SensorUnreadable \<Rightarrow> Inl OSError
            | SensorNotInteger \<Rightarrow> Inl ValueError) of
        Inl e \<Rightarrow> Inl e
      | Inr metrics1 \<Rightarrow>
          (case get_tt_smi_metrics pr of
             Inl e \<Rightarrow> Inl e
           | Inr tt_metrics \<Rightarrow> dict_update metrics1 tt_metrics))"

text \<open>\<open>collect_metrics\<close>: one sample appended to the history, unless the poll raised.\<close>

definition collect_metrics ::
  "metrics list \<Rightarrow> string \<Rightarrow> sensor_read \<Rightarrow> proc_outcome \<Rightarrow> py_error + (metrics list \<times> metrics)" where
  "collect_metrics history now sensor pr =
     (case get_system_metrics now sensor pr of
        Inl e \<Rightarrow> Inl e
      | Inr m \<Rightarrow> Inr (history @ [m], m))"

text \<open>
  \<open>print_metrics\<close> formats the temperature and the power with \<open>:.1f\<close> when they are
  truthy; the format raises on a string, a list or a dictionary.  The printed text is
  not modelled.
\<close>

fun truthy :: "json \<Rightarrow> bool" where
  "truthy JNull = False"
| "truthy (JBool b) = b"
| "truthy (JNum r) = (r \<noteq> 0)"
| "truthy (JStr cs) = (cs \<noteq> [])"
| "truthy (JArr xs) = (xs \<noteq> [])"
| "truthy (JObj kvs) = (kvs \<noteq> [])"

fun format_f :: "json \<Rightarrow> py_error + unit" where
  "format_f (JNum r) = Inr ()"
| "format_f (JBool b) = Inr ()"
| "format_f (JStr cs) = Inl ValueError"
| "format_f j = Inl TypeError"

definition print_field :: "metrics \<Rightarrow> string \<Rightarrow> py_error + unit" where
  "print_field m key =
     (case map_of m (JStr key) of
        None \<Rightarrow> Inr ()
      | Some v \<Rightarrow> if truthy v then format_f v else Inr ())"

definition print_metrics :: "metrics \<Rightarrow> py_error + unit" where
  "print_metrics m =
     (case print_field m ''temperature_c'' of
        Inl e \<Rightarrow> Inl e
      | Inr u \<Rightarrow> print_field m ''power_w'')"

subsection \<open>The polling loop\<close>

text \<open>
  One element per tick of what the outside world does: the timestamp, the sensor, the
  tool, the clock read by the duration test, and where a \<open>KeyboardInterrupt\<close> arrives in
  this tick, if it does.  A finite list is a finite prefix of a run; when it is used up
  the loop is still polling.
\<close>

datatype interrupt_at = NoInterrupt | DuringCollect | DuringPrint | DuringSleep

record tick_env =
  now_iso :: string
  sensor_now :: sensor_read
  tool_now :: proc_outcome
  clock :: real
  interrupt :: interrupt_at

datatype loop_end = DurationReached | Interrupted | Raised py_error | StillPolling

text \<open>\<open>duration and (time.time() - start_time) >= duration\<close>.\<close>

definition duration_reached :: "real option \<Rightarrow> real \<Rightarrow> bool" where
  "duration_reached duration elapsed =
     (case duration of None \<Rightarrow> False | Some d \<Rightarrow> d \<noteq> 0 \<and> d \<le> elapsed)"

text \<open>\<open>time.sleep(interval)\<close> raises on a negative interval.\<close>

fun monitor_loop ::
  "real \<Rightarrow> real option \<Rightarrow> real \<Rightarrow> tick_env list \<Rightarrow> metrics list
     \<Rightarrow> metrics list \<times> loop_end" where
  "monitor_loop interval duration start_time [] history = (history, StillPolling)"
| "monitor_loop interval duration start_time (t # ts) history =
     (if interrupt t = DuringCollect then (history, Interrupted)
      else
        (case collect_metrics history (now_iso t) (sensor_now t) (tool_now t) of
           Inl e \<Rightarrow> (history, Raised e)
         | Inr (history', m) \<Rightarrow>
             if interrupt t = DuringPrint then (history', Interrupted)
             else
               (case print_metrics m of
                  Inl e \<Rightarrow> (history', Raised e)
                | Inr u \<Rightarrow>
                    if duration_reached duration (clock t - start_time)
                    then (history', DurationReached)
                    else if interval < 0 then (history', Raised ValueError)
                    else if interrupt t = DuringSleep then (history', Interrupted)
                    else monitor_loop interval duration start_time ts history')))"

text \<open>
  \<open>GreyskullMonitor.monitor\<close> on a fresh monitor: the handler of \<open>KeyboardInterrupt\<close>
  makes the interrupted loop return normally; any other exception leaves the method.
\<close>

definition monitor ::
  "real \<Rightarrow> real option \<Rightarrow> real \<Rightarrow> tick_env list \<Rightarrow> metrics list \<times> loop_end" where
  "monitor interval duration start_time ticks =
     monitor_loop interval duration start_time ticks []"

record monitor_args =
  arg_interval :: real
  arg_duration :: "real option"
  arg_mon_output :: "string option"

datatype main_end = Returned | Aborted py_error | Running

text \<open>
  \<open>main\<close> of the monitor.  The result is the file system afterwards, the list of
  \<open>save_history\<close> calls made (path and history), and how the process ended.
\<close>

definition monitor_main ::
  "(metrics list \<Rightarrow> string list) \<Rightarrow> io_fault \<Rightarrow> monitor_args \<Rightarrow> real \<Rightarrow> tick_env list \<Rightarrow> fs
     \<Rightarrow> fs \<times> (string \<times> metrics list) list \<times> main_end" where
  "monitor_main enc fault args start_time ticks files =
     (case monitor (arg_interval args) (arg_duration args) start_time ticks of
        (history, StillPolling) \<Rightarrow> (files, [], Running)
      | (history, Raised e) \<Rightarrow> (files, [], Aborted e)
      | (history, ended) \<Rightarrow>
          (case arg_mon_output args of
             None \<Rightarrow> (files, [], Returned)
           | Some path \<Rightarrow>
               (case write_json fault (enc history) path files of
                  (files', Inl e) \<Rightarrow> (files', [(path, history)], Aborted e)
                | (files', Inr u) \<Rightarrow> (files', [(path, history)], Returned))))"

section \<open>Quantities and inputs used in the statements\<close>

text \<open>The element counts of the CPU calls, and of the timed device calls, in a trace.\<close>

fun cpu_calls :: "event list \<Rightarrow> nat list" where
  "cpu_calls [] = []"
| "cpu_calls (CpuIter n # es) = n # cpu_calls es"
| "cpu_calls (e # es) = cpu_calls es"

fun hw_calls :: "event list \<Rightarrow> nat list" where
  "hw_calls [] = []"
| "hw_calls (HwIter n # es) = n # hw_calls es"
| "hw_calls (e # es) = hw_calls es"

fun compiles :: "event list \<Rightarrow> BackendType list" where
  "compiles [] = []"
| "compiles (Compile bt # es) = bt # compiles es"
| "compiles (e # es) = compiles es"

text \<open>A value \<open>y\<close> matches a reference \<open>ref\<close> within the relative tolerance \<open>tol\<close>.\<close>

definition within_rtol :: "real \<Rightarrow> real \<Rightarrow> real \<Rightarrow> bool" where
  "within_rtol tol ref y = (\<bar>y - ref\<bar> \<le> tol * \<bar>ref\<bar>)"

text \<open>The operating system fails during the write of the given chunks.\<close>

fun fault_fires :: "io_fault \<Rightarrow> string list \<Rightarrow> bool" where
  "fault_fires NoFault chunks = False"
| "fault_fires OpenFails chunks = True"
| "fault_fires (WriteFails k) chunks = (k < length chunks)"
| "fault_fires (CloseFails n) chunks = True"

text \<open>
  A concrete run: every random draw is zero, every CPU loop takes one second and every
  accelerator run two seconds.
\<close>

definition zero_draws :: "nat \<Rightarrow> real" where
  "zero_draws i = 0"

definition zero_ints :: "nat \<Rightarrow> nat" where
  "zero_ints i = 0"

definition zero_table :: "nat \<Rightarrow> nat \<Rightarrow> real" where
  "zero_table i j = 0"

definition count_draws :: "nat \<Rightarrow> real" where
  "count_draws i = real i"

definition demo_xav :: "nat \<Rightarrow> nat \<Rightarrow> real" where
  "demo_xav i j = real (10 * i + j + 1)"

text \<open>A tick in which the sensor file is missing and the tool prints \<open>null\<close> and exits with 0.\<close>

definition null_tick :: tick_env where
  "null_tick =
     \<lparr> now_iso = ''2024-01-01T00:00:00'', sensor_now = SensorMissing,
       tool_now = Completed 0 (Some JNull), clock = 1, interrupt = NoInterrupt \<rparr>"

text \<open>A tick in which the sensor file is missing and the tool is not installed.\<close>

definition bare_tick :: tick_env where
  "bare_tick =
     \<lparr> now_iso = ''2024-01-01T00:00:00'', sensor_now = SensorMissing,
       tool_now = ToolNotFound, clock = 1, interrupt = NoInterrupt \<rparr>"

text \<open>
  A tick without interrupt whose only failures are the handled ones: the sensor file is
  missing or holds an integer; the tool times out, is missing, exits with a non-zero code,
  or prints what \<open>json.loads\<close> rejects.
\<close>

definition handled_tick :: "tick_env \<Rightarrow> bool" where
  "handled_tick t \<longleftrightarrow>
     interrupt t = NoInterrupt \<and>
     (case sensor_now t of SensorMissing \<Rightarrow> True | SensorValue v \<Rightarrow> True | _ \<Rightarrow> False) \<and>
     (case tool_now t of
        TimeoutExpired \<Rightarrow> True
      | ToolNotFound \<Rightarrow> True
      | ProcRaises e \<Rightarrow> False
      | Completed rc out \<Rightarrow> rc \<noteq> 0 \<or> out = None)"

definition one_chunk :: "metrics list \<Rightarrow> string list" where
  "one_chunk history = [''[]'']"

definition demo_report_enc :: "report \<Rightarrow> string list" where
  "demo_report_enc data = [''{'', rep_device data, ''}'']"

text \<open>Float32 operations without error, and with a relative error at the top of what
  the statements allow.\<close>

definition exact_ops :: float32_ops where
  "exact_ops = \<lparr> fl_round = (\<lambda>x. x), fl_log = ln \<rparr>"

definition skewed_ops :: float32_ops where
  "skewed_ops =
     \<lparr> fl_round = (\<lambda>x. x * (1 + 1 / 2 ^ 24)), fl_log = (\<lambda>x. ln x * (1 + 1 / 2 ^ 22)) \<rparr>"

text \<open>
  The elapsed time a benchmark with an accelerator path reports: the time of the CPU
  loop on the CPU-only path, the time of the device loop otherwise.
\<close>

definition measured :: "bool \<Rightarrow> suite \<Rightarrow> real \<Rightarrow> hw_outcome \<Rightarrow> real option" where
  "measured avail s cpu_time hw =
     (if \<not> avail \<or> suite_device s = None then Some cpu_time
      else (case hw of HwRaises \<Rightarrow> None | HwTime t \<Rightarrow> Some t))"

definition suite_elapsed :: "bool \<Rightarrow> suite \<Rightarrow> suite_env \<Rightarrow> real option list" where
  "suite_elapsed avail s env =
     [measured avail s (cpu_neg2zero env) (hw_neg2zero env),
      measured avail s (cpu_logarithm env) (hw_logarithm env),
      Some (cpu_modulus env),
      measured avail s (cpu_vocabmap env) (hw_vocabmap env)]"

text \<open>The largest finite value of a 64-bit float.\<close>

definition float64_max :: real where
  "float64_max = (2 ^ 53 - 1) * 2 ^ 971"

definition demo_env :: suite_env where
  "demo_env =
     \<lparr> fp_ops = exact_ops,
       rnd_neg2zero = zero_draws, rnd_logarithm = zero_draws, rnd_modulus = zero_ints,
       rnd_indices = zero_ints, rnd_weight = zero_table,
       cpu_neg2zero = 1, hw_neg2zero = HwTime 2,
       cpu_logarithm = 1, hw_logarithm = HwTime 2,
       cpu_modulus = 1,
       cpu_vocabmap = 1, hw_vocabmap = HwTime 2 \<rparr>"

section \<open>Facts about the benchmark model\<close>

lemma py_int_nonneg: "0 \<le> x \<Longrightarrow> py_int x = \<lfloor>x\<rfloor>"
  by (simp add: py_int_def)

lemma timing_loop_Inr: "timing_loop n (Inr ev) = Inr (replicate n ev)"
  by (induction n) auto

lemma timing_loop_Inl: "0 < n \<Longrightarrow> timing_loop n (Inl e) = Inl e"
  by (cases n) auto

lemma generate_ok:
  "0 \<le> elements_of size_mb \<Longrightarrow>
   \<exists>xs. generate_synthetic_data rnd size_mb dt = Inr (FloatTensor xs) \<and>
        length xs = nat (elements_of size_mb)"
  by (simp add: generate_synthetic_data_def torch_randn_def Let_def)

lemma generate_err:
  "elements_of size_mb < 0 \<Longrightarrow> generate_synthetic_data rnd size_mb dt = Inl RuntimeError"
  by (simp add: generate_synthetic_data_def torch_randn_def Let_def)

lemma numel_slice_to: "numel (slice_to n t) = min n (numel t)"
  by (cases t) (simp_all add: min.commute)

lemma numel_clamp: "numel (torch_clamp_min t m) = numel t"
  by (cases t) (simp_all add: torch_clamp_min_def)

lemma numel_abs: "numel (torch_abs t) = numel t"
  by (cases t) simp_all

lemma numel_add_scalar: "numel (add_scalar fp t c) = numel t"
  by (cases t) (simp_all add: add_scalar_def)

lemma numel_logarithm_data: "numel (logarithm_data fp t) = numel t"
  by (simp add: logarithm_data_def numel_add_scalar numel_abs)

lemma length_torch_log: "length (torch_log fp t) = numel t"
  by (cases t) (simp_all add: torch_log_def)

lemma length_LogOp: "length (LogOp_forward fp t) = numel t"
  by (simp add: LogOp_forward_def length_torch_log numel_add_scalar)

lemma benchmark_neg2zero_eq:
  assumes "0 \<le> elements_of size_mb"
  shows "benchmark_neg2zero avail s rnd size_mb iters cpu_time hw =
     (if \<not> avail \<or> suite_device s = None then
        (case cpu_result ''Neg2Zero'' size_mb iters (int (batch_elements size_mb) * 4 * iters) cpu_time of
           Inl e \<Rightarrow> Inl e
         | Inr r \<Rightarrow> Inr (r, replicate (nat iters) (CpuIter (batch_elements size_mb))))
      else
        (case hw of
           HwRaises \<Rightarrow> Inl BackendError
         | HwTime hw_time \<Rightarrow>
             (case hw_result ''Neg2Zero'' (device_type s) size_mb iters
                     (int (batch_elements size_mb) * 4 * iters) cpu_time hw_time of
                Inl e \<Rightarrow> Inl e
              | Inr r \<Rightarrow>
                  Inr (r, replicate (nat iters) (CpuIter (batch_elements size_mb)) @
                          hw_trace (devtype (the (suite_device s))) (batch_elements size_mb) iters))))"
proof -
  from generate_ok [OF assms] obtain xs where
    g: "generate_synthetic_data rnd size_mb Float32 = Inr (FloatTensor xs)"
    and l: "length xs = nat (elements_of size_mb)" by blast
  have b: "min 1048576 (length xs) = batch_elements size_mb"
    by (simp add: batch_elements_def l)
  have b2: "min (length xs) (batch_elements size_mb) = batch_elements size_mb"
    by (simp add: batch_elements_def l)
  show ?thesis
    unfolding benchmark_neg2zero_def g
    by (simp add: Let_def timing_loop_Inr numel_clamp Neg2ZeroOp_forward_def b b2
          del: replicate.simps cong: sum.case_cong hw_outcome.case_cong)
qed

lemma benchmark_logarithm_eq:
  assumes "0 \<le> elements_of size_mb"
  shows "benchmark_logarithm avail s fp rnd size_mb iters cpu_time hw =
     (if \<not> avail \<or> suite_device s = None then
        (case cpu_result ''Logarithm'' size_mb iters (int (batch_elements size_mb) * 4 * iters) cpu_time of
           Inl e \<Rightarrow> Inl e
         | Inr r \<Rightarrow> Inr (r, replicate (nat iters) (CpuIter (batch_elements size_mb))))
      else
        (case hw of
           HwRaises \<Rightarrow> Inl BackendError
         | HwTime hw_time \<Rightarrow>
             (case hw_result ''Logarithm'' (device_type s) size_mb iters
                     (int (batch_elements size_mb) * 4 * iters) cpu_time hw_time of
                Inl e \<Rightarrow> Inl e
              | Inr r \<Rightarrow>
                  Inr (r, replicate (nat iters) (CpuIter (batch_elements size_mb)) @
                          hw_trace (devtype (the (suite_device s))) (batch_elements size_mb) iters))))"
proof -
  from generate_ok [OF assms] obtain xs where
    g: "generate_synthetic_data rnd size_mb Float32 = Inr (FloatTensor xs)"
    and l: "length xs = nat (elements_of size_mb)" by blast
  have b: "min 1048576 (length xs) = batch_elements size_mb"
    by (simp add: batch_elements_def l)
  have b2: "min (length xs) (batch_elements size_mb) = batch_elements size_mb"
    by (simp add: batch_elements_def l)
  have b3: "min (length xs) 1048576 = batch_elements size_mb"
    by (simp add: batch_elements_def l)
  have b4: "min (batch_elements size_mb) (length xs) = batch_elements size_mb"
    by (simp add: batch_elements_def l)
  show ?thesis
    unfolding benchmark_logarithm_def g
    by (simp add: Let_def timing_loop_Inr length_torch_log length_LogOp numel_slice_to
          numel_logarithm_data b b2 b3 b4
          del: replicate.simps cong: sum.case_cong hw_outcome.case_cong)
qed

lemma draw_in_range:
  "low < high \<Longrightarrow> low \<le> low + int k mod (high - low) \<and> low + int k mod (high - low) < high"
  using pos_mod_bound [of "high - low" "int k"] pos_mod_sign [of "high - low" "int k"] by linarith

lemma randint_ok:
  "0 \<le> n \<Longrightarrow> low < high \<Longrightarrow>
   \<exists>xs. torch_randint rndi low high n = Inr xs \<and> length xs = nat n \<and>
        (\<forall>x \<in> set xs. low \<le> x \<and> x < high)"
  by (auto simp: torch_randint_def draw_in_range)

lemma remainder_ok: "m \<noteq> 0 \<Longrightarrow> \<exists>out. torch_remainder xs m = Inr out \<and> length out = length xs"
  by (simp add: torch_remainder_def)

lemma benchmark_modulus_eq:
  assumes "0 \<le> elements_of size_mb" and "mod_value \<noteq> 0"
  shows "benchmark_modulus avail s rndi size_mb iters mod_value cpu_time =
     (case py_truediv (real_of_int (int (batch_elements size_mb) * 4 * iters) / 10 ^ 9) cpu_time of
        Inl e \<Rightarrow> Inl e
      | Inr throughput \<Rightarrow>
          Inr (\<lparr> name = ''Modulus(mod='' @ py_str_int mod_value @ '')'',
                 device = (if \<not> avail then ''CPU'' else device_type s),
                 data_size_mb = size_mb, iterations = iters,
                 total_time_s = cpu_time, throughput_gbs = throughput,
                 speedup_vs_cpu = 1,
                 power_watts = None, temperature_c = None \<rparr>,
               replicate (nat iters) (CpuIter (batch_elements size_mb))))"
proof -
  from randint_ok [of "elements_of size_mb" 0 10000 rndi] assms obtain xs where
    g: "torch_randint rndi 0 10000 (elements_of size_mb) = Inr xs"
    and l: "length xs = nat (elements_of size_mb)" by auto
  have b: "min 1048576 (length xs) = batch_elements size_mb"
    by (simp add: batch_elements_def l)
  have b2: "min (length xs) (batch_elements size_mb) = batch_elements size_mb"
    by (simp add: batch_elements_def l)
  from remainder_ok [OF assms(2), of "take (batch_elements size_mb) xs"] obtain out where
    r: "torch_remainder (take (batch_elements size_mb) xs) mod_value = Inr out"
    and lo: "length out = batch_elements size_mb" by (auto simp: b2)
  show ?thesis
    unfolding benchmark_modulus_def
    by (simp add: Let_def g b r lo timing_loop_Inr
          del: replicate.simps cong: sum.case_cong)
qed

lemma lookup_seq_ok:
  "\<forall>i \<in> set is. 0 \<le> i \<and> i < int (length w) \<Longrightarrow>
   lookup_seq w is = Inr (map (\<lambda>i. w ! nat i) is)"
  by (induction "is") (auto simp: lookup_row_def)

lemma lookup_batch_ok:
  "\<forall>row \<in> set rows. \<forall>i \<in> set row. 0 \<le> i \<and> i < int (length w) \<Longrightarrow>
   lookup_batch w rows = Inr (map (map (\<lambda>i. w ! nat i)) rows)"
  by (induction rows) (auto simp: lookup_seq_ok)

lemma nelement_map_map: "nelement (map (map f) rows) = nelement rows"
  by (simp add: nelement_def comp_def)

lemma randint2_ok:
  assumes "0 \<le> b" "0 \<le> sl" "low < high"
  shows "\<exists>rows. torch_randint2 rndi low high b sl = Inr rows \<and>
           nelement rows = nat b * nat sl \<and>
           (\<forall>row \<in> set rows. \<forall>i \<in> set row. low \<le> i \<and> i < high)"
proof -
  have "sum_list (map (\<lambda>r. nat sl) [0..<nat b]) = nat b * nat sl"
    by (simp add: sum_list_triv)
  with assms show ?thesis
    by (auto simp: torch_randint2_def nelement_def comp_def draw_in_range)
qed

lemma length_table_of: "length (table_of w num edim) = nat num"
  by (simp add: table_of_def)

lemma nn_Embedding_None:
  "0 \<le> num \<Longrightarrow> 0 \<le> edim \<Longrightarrow>
   nn_Embedding w num edim None =
     Inr \<lparr> num_embeddings = num, emb_dim = edim, padding_idx = None,
           weight = table_of w num edim \<rparr>"
  by (simp add: nn_Embedding_def normalise_padding_def)

lemma benchmark_vocabmap_eq:
  assumes "0 < vs" "0 \<le> ed" "0 \<le> b" "0 \<le> sl"
  shows "benchmark_vocabmap avail s rndi w_rnd vs ed b sl iters cpu_time hw =
     (let total_bytes = (b * sl * 4 + b * sl * ed * 4) * iters;
          nm = ''VocabMap(vocab='' @ py_str_int vs @ '',dim='' @ py_str_int ed @ '')''
      in
      if \<not> avail \<or> suite_device s = None then
        (case cpu_result nm (real_of_int total_bytes / (1024 * 1024)) iters total_bytes cpu_time of
           Inl e \<Rightarrow> Inl e
         | Inr r \<Rightarrow> Inr (r, replicate (nat iters) (CpuIter (nat b * nat sl))))
      else
        (case hw of
           HwRaises \<Rightarrow> Inl BackendError
         | HwTime hw_time \<Rightarrow>
             (case hw_result nm (device_type s) (real_of_int total_bytes / (1024 * 1024)) iters
                     total_bytes cpu_time hw_time of
                Inl e \<Rightarrow> Inl e
              | Inr r \<Rightarrow>
                  Inr (r, replicate (nat iters) (CpuIter (nat b * nat sl)) @
                          hw_trace (devtype (the (suite_device s))) (nat b * nat sl) iters))))"
proof -
  from randint2_ok [of b sl 0 vs rndi] assms obtain rows where
    g: "torch_randint2 rndi 0 vs b sl = Inr rows"
    and n: "nelement rows = nat b * nat sl"
    and r: "\<forall>row \<in> set rows. \<forall>i \<in> set row. 0 \<le> i \<and> i < vs" by auto
  have e: "nn_Embedding w_rnd vs ed None =
     Inr \<lparr> num_embeddings = vs, emb_dim = ed, padding_idx = None,
           weight = table_of w_rnd vs ed \<rparr>"
    using assms by (simp add: nn_Embedding_None)
  have r': "\<forall>row \<in> set rows. \<forall>i \<in> set row. 0 \<le> i \<and> i < int (length (table_of w_rnd vs ed))"
    using r assms by (simp add: length_table_of)
  have c: "Embedding_call \<lparr> num_embeddings = vs, emb_dim = ed, padding_idx = None,
           weight = table_of w_rnd vs ed \<rparr> rows = Inr (map (map (\<lambda>i. table_of w_rnd vs ed ! nat i)) rows)"
    by (simp add: Embedding_call_def lookup_batch_ok [OF r'])
  have i: "int (nat b * nat sl) = b * sl" using assms by simp
  show ?thesis
    unfolding benchmark_vocabmap_def g e
    by (simp add: Let_def c nelement_map_map n i timing_loop_Inr
          del: replicate.simps of_nat_mult cong: sum.case_cong hw_outcome.case_cong)
qed

lemma py_truediv_Inr: "py_truediv a b = Inr q \<longleftrightarrow> b \<noteq> 0 \<and> q = a / b"
  by (auto simp: py_truediv_def)

lemma cpu_result_Inr:
  "cpu_result nm sz it tb t = Inr r \<longleftrightarrow>
     t \<noteq> 0 \<and>
     r = \<lparr> name = nm, device = ''CPU'', data_size_mb = sz, iterations = it,
           total_time_s = t, throughput_gbs = real_of_int tb / 10 ^ 9 / t, speedup_vs_cpu = 1,
           power_watts = None, temperature_c = None \<rparr>"
  by (auto simp: cpu_result_def py_truediv_def)

lemma hw_result_Inr:
  "hw_result nm lbl sz it tb ct t = Inr r \<longleftrightarrow>
     t \<noteq> 0 \<and>
     r = \<lparr> name = nm, device = lbl, data_size_mb = sz, iterations = it,
           total_time_s = t, throughput_gbs = real_of_int tb / 10 ^ 9 / t,
           speedup_vs_cpu = ct / t,
           power_watts = None, temperature_c = None \<rparr>"
  by (auto simp: hw_result_def py_truediv_def)

lemma neg2zero_elements:
  "benchmark_neg2zero avail s rnd size_mb iters cpu_time hw = Inr x \<Longrightarrow> 0 \<le> elements_of size_mb"
  by (rule ccontr) (simp add: benchmark_neg2zero_def generate_err)

lemma logarithm_elements:
  "benchmark_logarithm avail s fp rnd size_mb iters cpu_time hw = Inr x \<Longrightarrow> 0 \<le> elements_of size_mb"
  by (rule ccontr) (simp add: benchmark_logarithm_def generate_err)

lemma neg2zero_result:
  assumes "benchmark_neg2zero avail s rnd size_mb iters cpu_time hw = Inr (r, tr)"
  shows "if \<not> avail \<or> suite_device s = None then
           cpu_result ''Neg2Zero'' size_mb iters (int (batch_elements size_mb) * 4 * iters) cpu_time = Inr r \<and>
           tr = replicate (nat iters) (CpuIter (batch_elements size_mb))
         else
           (\<exists>t. hw = HwTime t \<and>
              hw_result ''Neg2Zero'' (device_type s) size_mb iters
                (int (batch_elements size_mb) * 4 * iters) cpu_time t = Inr r \<and>
              tr = replicate (nat iters) (CpuIter (batch_elements size_mb)) @
                   hw_trace (devtype (the (suite_device s))) (batch_elements size_mb) iters)"
  using assms benchmark_neg2zero_eq [OF neg2zero_elements [OF assms], of avail s rnd iters cpu_time hw]
  by (auto split: if_splits sum.splits hw_outcome.splits)

lemma logarithm_result:
  assumes "benchmark_logarithm avail s fp rnd size_mb iters cpu_time hw = Inr (r, tr)"
  shows "if \<not> avail \<or> suite_device s = None then
           cpu_result ''Logarithm'' size_mb iters (int (batch_elements size_mb) * 4 * iters) cpu_time = Inr r \<and>
           tr = replicate (nat iters) (CpuIter (batch_elements size_mb))
         else
           (\<exists>t. hw = HwTime t \<and>
              hw_result ''Logarithm'' (device_type s) size_mb iters
                (int (batch_elements size_mb) * 4 * iters) cpu_time t = Inr r \<and>
              tr = replicate (nat iters) (CpuIter (batch_elements size_mb)) @
                   hw_trace (devtype (the (suite_device s))) (batch_elements size_mb) iters)"
  using assms benchmark_logarithm_eq [OF logarithm_elements [OF assms], of avail s fp rnd iters cpu_time hw]
  by (auto split: if_splits sum.splits hw_outcome.splits)

lemma modulus_result:
  assumes "benchmark_modulus avail s rndi size_mb iters 100 cpu_time = Inr (r, tr)"
  shows "cpu_time \<noteq> 0 \<and>
         r = \<lparr> name = ''Modulus(mod='' @ py_str_int 100 @ '')'',
               device = (if \<not> avail then ''CPU'' else device_type s),
               data_size_mb = size_mb, iterations = iters,
               total_time_s = cpu_time,
               throughput_gbs = real_of_int (int (batch_elements size_mb) * 4 * iters) / 10 ^ 9 / cpu_time,
               speedup_vs_cpu = 1,
               power_watts = None, temperature_c = None \<rparr> \<and>
         tr = replicate (nat iters) (CpuIter (batch_elements size_mb))"
proof -
  have e: "0 \<le> elements_of size_mb"
    using assms by - (rule ccontr, simp add: benchmark_modulus_def torch_randint_def)
  show ?thesis
    using assms benchmark_modulus_eq [OF e, of 100 avail s rndi iters cpu_time]
    by (auto simp: py_truediv_def split: if_splits)
qed

lemma vocabmap_result:
  assumes "benchmark_vocabmap avail s rndi w_rnd 10000 128 32 256 iters cpu_time hw = Inr (r, tr)"
  shows "if \<not> avail \<or> suite_device s = None then
           cpu_result (''VocabMap(vocab='' @ py_str_int 10000 @ '',dim='' @ py_str_int 128 @ '')'')
             (real_of_int (4227072 * iters) / (1024 * 1024)) iters (4227072 * iters) cpu_time = Inr r \<and>
           tr = replicate (nat iters) (CpuIter 8192)
         else
           (\<exists>t. hw = HwTime t \<and>
              hw_result (''VocabMap(vocab='' @ py_str_int 10000 @ '',dim='' @ py_str_int 128 @ '')'')
                (device_type s) (real_of_int (4227072 * iters) / (1024 * 1024)) iters
                (4227072 * iters) cpu_time t = Inr r \<and>
              tr = replicate (nat iters) (CpuIter 8192) @
                   hw_trace (devtype (the (suite_device s))) 8192 iters)"
  using assms benchmark_vocabmap_eq [of 10000 128 32 256 avail s rndi w_rnd iters cpu_time hw]
  by (auto simp: Let_def split: if_splits sum.splits hw_outcome.splits)

lemma cpu_calls_append: "cpu_calls (xs @ ys) = cpu_calls xs @ cpu_calls ys"
  by (induction xs rule: cpu_calls.induct) auto

lemma hw_calls_append: "hw_calls (xs @ ys) = hw_calls xs @ hw_calls ys"
  by (induction xs rule: hw_calls.induct) auto

lemma compiles_append: "compiles (xs @ ys) = compiles xs @ compiles ys"
  by (induction xs rule: compiles.induct) auto

lemma calls_replicate:
  "cpu_calls (replicate n (CpuIter k)) = replicate n k"
  "cpu_calls (replicate n (HwIter k)) = []"
  "cpu_calls (replicate n (Warmup k)) = []"
  "hw_calls (replicate n (HwIter k)) = replicate n k"
  "hw_calls (replicate n (CpuIter k)) = []"
  "hw_calls (replicate n (Warmup k)) = []"
  "compiles (replicate n (CpuIter k)) = []"
  "compiles (replicate n (HwIter k)) = []"
  "compiles (replicate n (Warmup k)) = []"
  by (induction n) auto

lemma calls_hw_trace:
  "cpu_calls (hw_trace bt k iters) = []"
  "hw_calls (hw_trace bt k iters) = replicate (nat iters) k"
  "compiles (hw_trace bt k iters) = [bt]"
  by (simp_all add: hw_trace_def cpu_calls_append hw_calls_append compiles_append calls_replicate
        del: replicate.simps)

lemma run_full_suite_Inr:
  assumes "run_full_suite avail s env size_mb iters = Inr (s', rs, tr)"
  shows "\<exists>r1 t1 r2 t2 r3 t3 r4 t4.
     benchmark_neg2zero avail s (rnd_neg2zero env) size_mb iters
        (cpu_neg2zero env) (hw_neg2zero env) = Inr (r1, t1) \<and>
     benchmark_logarithm avail s (fp_ops env) (rnd_logarithm env) size_mb iters
        (cpu_logarithm env) (hw_logarithm env) = Inr (r2, t2) \<and>
     benchmark_modulus avail s (rnd_modulus env) size_mb iters 100 (cpu_modulus env) = Inr (r3, t3) \<and>
     benchmark_vocabmap avail s (rnd_indices env) (rnd_weight env) 10000 128 32 256
        iters (cpu_vocabmap env) (hw_vocabmap env) = Inr (r4, t4) \<and>
     rs = [r1, r2, r3, r4] \<and> tr = t1 @ t2 @ t3 @ t4 \<and>
     s' = s\<lparr> results := results s @ rs \<rparr>"
  using assms unfolding run_full_suite_def
  by (auto split: sum.splits prod.splits)

lemma neg2zero_throughput:
  assumes "benchmark_neg2zero avail s rnd size_mb iters cpu_time hw = Inr (r, tr)"
  shows "throughput_gbs r = real_of_int (int (batch_elements size_mb) * 4 * iters) / 10 ^ 9 / total_time_s r"
    and "total_time_s r \<noteq> 0"
  using neg2zero_result [OF assms]
  by (auto simp: cpu_result_Inr hw_result_Inr split: if_splits)

lemma logarithm_throughput:
  assumes "benchmark_logarithm avail s fp rnd size_mb iters cpu_time hw = Inr (r, tr)"
  shows "throughput_gbs r = real_of_int (int (batch_elements size_mb) * 4 * iters) / 10 ^ 9 / total_time_s r"
    and "total_time_s r \<noteq> 0"
  using logarithm_result [OF assms]
  by (auto simp: cpu_result_Inr hw_result_Inr split: if_splits)

lemma modulus_throughput:
  assumes "benchmark_modulus avail s rndi size_mb iters 100 cpu_time = Inr (r, tr)"
  shows "throughput_gbs r = real_of_int (int (batch_elements size_mb) * 4 * iters) / 10 ^ 9 / total_time_s r"
    and "total_time_s r \<noteq> 0"
  using modulus_result [OF assms] by auto

lemma vocabmap_throughput:
  assumes "benchmark_vocabmap avail s rndi w_rnd 10000 128 32 256 iters cpu_time hw = Inr (r, tr)"
  shows "throughput_gbs r = real_of_int (4227072 * iters) / 10 ^ 9 / total_time_s r"
    and "total_time_s r \<noteq> 0"
  using vocabmap_result [OF assms]
  by (auto simp: cpu_result_Inr hw_result_Inr split: if_splits)

lemma throughput_nonneg:
  "0 \<le> b \<Longrightarrow> 1 \<le> iters \<Longrightarrow> 0 < t \<Longrightarrow> 0 \<le> real_of_int (b * iters) / 10 ^ 9 / t"
  by simp

section \<open>Throughput and speedup of the suite's results\<close>

lemma elements_of_nonneg: "0 \<le> size_mb \<Longrightarrow> 0 \<le> elements_of size_mb"
  by (simp add: elements_of_def py_int_def)

lemma run_full_suite_returns_cpu:
  assumes "\<not> avail \<or> suite_device s = None" "0 \<le> elements_of size_mb"
    "cpu_neg2zero env \<noteq> 0" "cpu_logarithm env \<noteq> 0" "cpu_modulus env \<noteq> 0"
    "cpu_vocabmap env \<noteq> 0"
  shows "\<exists>s' rs tr. run_full_suite avail s env size_mb iters = Inr (s', rs, tr)"
  using assms(1,3-)
  by (auto simp: run_full_suite_def benchmark_neg2zero_eq [OF assms(2)]
        benchmark_logarithm_eq [OF assms(2)] benchmark_modulus_eq [OF assms(2)]
        benchmark_vocabmap_eq cpu_result_def py_truediv_def Let_def)

lemma run_full_suite_returns_hw:
  assumes "avail" "suite_device s \<noteq> None" "0 \<le> elements_of size_mb"
    "hw_neg2zero env = HwTime t1" "t1 \<noteq> 0" "hw_logarithm env = HwTime t2" "t2 \<noteq> 0"
    "cpu_modulus env \<noteq> 0" "hw_vocabmap env = HwTime t4" "t4 \<noteq> 0"
  shows "\<exists>s' rs tr. run_full_suite avail s env size_mb iters = Inr (s', rs, tr)"
  using assms(1,2,4-)
  by (auto simp: run_full_suite_def benchmark_neg2zero_eq [OF assms(3)]
        benchmark_logarithm_eq [OF assms(3)] benchmark_modulus_eq [OF assms(3)]
        benchmark_vocabmap_eq hw_result_def py_truediv_def Let_def)

lemma demo_run_cpu:
  "\<exists>s' rs tr. run_full_suite False (suite_init False ''cpu'' True) demo_env 10 100 = Inr (s', rs, tr)"
  by (rule run_full_suite_returns_cpu) (simp_all add: elements_of_nonneg demo_env_def)

lemma demo_run_hw:
  "\<exists>s' rs tr. run_full_suite True (suite_init True ''cpu'' True) demo_env 10 100 = Inr (s', rs, tr)"
  by (rule run_full_suite_returns_hw [where ?t1.0 = 2 and ?t2.0 = 2 and ?t4.0 = 2])
     (simp_all add: elements_of_nonneg demo_env_def suite_init_def)

lemma neg2zero_speedup:
  assumes "benchmark_neg2zero avail s rnd size_mb iters cpu_time hw = Inr (r, tr)"
  shows "if \<not> avail \<or> suite_device s = None
         then speedup_vs_cpu r = 1 \<and> total_time_s r = cpu_time \<and> device r = ''CPU''
         else (\<exists>t. hw = HwTime t \<and> total_time_s r = t \<and> speedup_vs_cpu r = cpu_time / t \<and>
                 device r = device_type s)"
  using neg2zero_result [OF assms]
  by (auto simp: cpu_result_Inr hw_result_Inr split: if_splits)

lemma logarithm_speedup:
  assumes "benchmark_logarithm avail s fp rnd size_mb iters cpu_time hw = Inr (r, tr)"
  shows "if \<not> avail \<or> suite_device s = None
         then speedup_vs_cpu r = 1 \<and> total_time_s r = cpu_time \<and> device r = ''CPU''
         else (\<exists>t. hw = HwTime t \<and> total_time_s r = t \<and> speedup_vs_cpu r = cpu_time / t \<and>
                 device r = device_type s)"
  using logarithm_result [OF assms]
  by (auto simp: cpu_result_Inr hw_result_Inr split: if_splits)

lemma vocabmap_speedup:
  assumes "benchmark_vocabmap avail s rndi w_rnd 10000 128 32 256 iters cpu_time hw = Inr (r, tr)"
  shows "if \<not> avail \<or> suite_device s = None
         then speedup_vs_cpu r = 1 \<and> total_time_s r = cpu_time \<and> device r = ''CPU''
         else (\<exists>t. hw = HwTime t \<and> total_time_s r = t \<and> speedup_vs_cpu r = cpu_time / t \<and>
                 device r = device_type s)"
  using vocabmap_result [OF assms]
  by (auto simp: cpu_result_Inr hw_result_Inr split: if_splits)

lemma modulus_speedup:
  assumes "benchmark_modulus avail s rndi size_mb iters 100 cpu_time = Inr (r, tr)"
  shows "speedup_vs_cpu r = 1 \<and> total_time_s r = cpu_time \<and>
         device r = (if \<not> avail then ''CPU'' else device_type s)"
  using modulus_result [OF assms] by auto

lemma batch_elements_le: "batch_elements size_mb \<le> 1048576"
  by (simp add: batch_elements_def)

lemma elements_of_10: "elements_of 10 = 2621440"
  by (simp add: elements_of_def py_int_def)

lemma measured_neg2zero:
  assumes "benchmark_neg2zero avail s rnd size_mb iters cpu_time hw = Inr (r, tr)"
  shows "measured avail s cpu_time hw = Some (total_time_s r)"
  using neg2zero_speedup [OF assms] by (auto simp: measured_def split: if_splits)

lemma measured_logarithm:
  assumes "benchmark_logarithm avail s fp rnd size_mb iters cpu_time hw = Inr (r, tr)"
  shows "measured avail s cpu_time hw = Some (total_time_s r)"
  using logarithm_speedup [OF assms] by (auto simp: measured_def split: if_splits)

lemma measured_vocabmap:
  assumes "benchmark_vocabmap avail s rndi w_rnd 10000 128 32 256 iters cpu_time hw = Inr (r, tr)"
  shows "measured avail s cpu_time hw = Some (total_time_s r)"
  using vocabmap_speedup [OF assms] by (auto simp: measured_def split: if_splits)

lemma throughput_float_bound:
  assumes "0 \<le> b" "b \<le> 4227072" "1 \<le> iters" "iters \<le> 2 ^ 63" "1 / 10 ^ 9 \<le> t"
  shows "real_of_int (b * iters) / 10 ^ 9 / t \<le> float64_max"
proof -
  have n: "0 \<le> real_of_int (b * iters) / 10 ^ 9" using assms(1,3) by simp
  have "real_of_int (b * iters) / 10 ^ 9 / t \<le> real_of_int (b * iters) / 10 ^ 9 / (1 / 10 ^ 9)"
    using assms(5) n by (intro divide_left_mono) simp_all
  also have "\<dots> = real_of_int (b * iters)" by simp
  also have "b * iters \<le> 4227072 * 2 ^ 63"
    using assms(1-4) by (intro mult_mono) simp_all
  then have "real_of_int (b * iters) \<le> real_of_int (4227072 * 2 ^ 63)"
    by (rule of_int_le_iff [THEN iffD2])
  also have "real_of_int (4227072 * 2 ^ 63) \<le> float64_max"
    by (simp add: float64_max_def)
  finally show ?thesis .
qed

lemma suite_returns:
  assumes "0 \<le> size_mb"
    and "\<forall>t \<in> set (suite_elapsed avail s env). \<exists>x. t = Some x \<and> 0 < x"
  shows "\<exists>s1 rs1 tr1. run_full_suite avail s env size_mb iters = Inr (s1, rs1, tr1)"
proof (cases "\<not> avail \<or> suite_device s = None")
  case True
  with assms(2) have "cpu_neg2zero env \<noteq> 0" "cpu_logarithm env \<noteq> 0"
    "cpu_modulus env \<noteq> 0" "cpu_vocabmap env \<noteq> 0"
    by (auto simp: suite_elapsed_def measured_def)
  with True elements_of_nonneg [OF assms(1)] show ?thesis
    by (intro run_full_suite_returns_cpu) simp_all
next
  case False
  with assms(2) obtain t1 t2 t4 where
    "hw_neg2zero env = HwTime t1" "t1 \<noteq> 0" "hw_logarithm env = HwTime t2" "t2 \<noteq> 0"
    "hw_vocabmap env = HwTime t4" "t4 \<noteq> 0" "cpu_modulus env \<noteq> 0"
    by (auto simp: suite_elapsed_def measured_def split: hw_outcome.splits)
  with False elements_of_nonneg [OF assms(1)] show ?thesis
    by (intro run_full_suite_returns_hw [where ?t1.0 = t1 and ?t2.0 = t2 and ?t4.0 = t4])
       simp_all
qed

text \<open>
  Claim C1.  The four results of a suite run report the measured elapsed times (the CPU
  loop's on the CPU-only path and for modulus, the device loop's otherwise), none of them
  zero, and each stored throughput is the bytes processed per iteration times the
  iteration count, divided by that elapsed time and by \<open>10^9\<close>.  The bytes per iteration
  are four times the batch element count for the clamp, logarithm and modulus benchmarks,
  and the index bytes (\<open>32 * 256 * 4\<close>) plus the embedding bytes (\<open>32 * 256 * 128 * 4\<close>)
  for the vocabulary lookup only.  With at least one iteration and a positive elapsed time
  the throughput is not negative; it is a quotient with a non-zero divisor, and for an
  iteration count below \<open>2^63\<close> and an elapsed time of at least a nanosecond it lies within
  the range of a 64-bit float.  A run on a non-negative size whose elapsed times are all
  positive does produce its results.
\<close>

theorem suite_throughput:
  "(run_full_suite avail s env size_mb iters = Inr (s', rs, tr) \<longrightarrow>
      (\<exists>r1 r2 r3 r4. rs = [r1, r2, r3, r4] \<and>
         map (\<lambda>r. Some (total_time_s r)) rs = suite_elapsed avail s env \<and>
         (\<forall>r \<in> set rs. total_time_s r \<noteq> 0) \<and>
         throughput_gbs r1 =
           real (batch_elements size_mb * 4) * real_of_int iters / total_time_s r1 / 10 ^ 9 \<and>
         throughput_gbs r2 =
           real (batch_elements size_mb * 4) * real_of_int iters / total_time_s r2 / 10 ^ 9 \<and>
         throughput_gbs r3 =
           real (batch_elements size_mb * 4) * real_of_int iters / total_time_s r3 / 10 ^ 9 \<and>
         throughput_gbs r4 =
           real (32 * 256 * 4 + 32 * 256 * 128 * 4) * real_of_int iters / total_time_s r4
             / 10 ^ 9 \<and>
         (1 \<le> iters \<longrightarrow> (\<forall>r \<in> set rs. 0 < total_time_s r \<longrightarrow> 0 \<le> throughput_gbs r)) \<and>
         (1 \<le> iters \<and> iters \<le> 2 ^ 63 \<longrightarrow>
            (\<forall>r \<in> set rs. 1 / 10 ^ 9 \<le> total_time_s r \<longrightarrow> throughput_gbs r \<le> float64_max)))) \<and>
   (0 \<le> size_mb \<and> (\<forall>t \<in> set (suite_elapsed avail s env). \<exists>x. t = Some x \<and> 0 < x) \<longrightarrow>
      (\<exists>s1 rs1 tr1. run_full_suite avail s env size_mb iters = Inr (s1, rs1, tr1)))"
proof (intro conjI impI)
  assume h: "run_full_suite avail s env size_mb iters = Inr (s', rs, tr)"
  from run_full_suite_Inr [OF h] obtain r1 t1 r2 t2 r3 t3 r4 t4 where
    b1: "benchmark_neg2zero avail s (rnd_neg2zero env) size_mb iters
           (cpu_neg2zero env) (hw_neg2zero env) = Inr (r1, t1)" and
    b2: "benchmark_logarithm avail s (fp_ops env) (rnd_logarithm env) size_mb iters
           (cpu_logarithm env) (hw_logarithm env) = Inr (r2, t2)" and
    b3: "benchmark_modulus avail s (rnd_modulus env) size_mb iters 100 (cpu_modulus env) = Inr (r3, t3)" and
    b4: "benchmark_vocabmap avail s (rnd_indices env) (rnd_weight env) 10000 128 32 256
           iters (cpu_vocabmap env) (hw_vocabmap env) = Inr (r4, t4)" and
    rs: "rs = [r1, r2, r3, r4]" by blast
  note th = neg2zero_throughput(1) [OF b1] logarithm_throughput(1) [OF b2]
    modulus_throughput(1) [OF b3] vocabmap_throughput(1) [OF b4]
  note nz = neg2zero_throughput(2) [OF b1] logarithm_throughput(2) [OF b2]
    modulus_throughput(2) [OF b3] vocabmap_throughput(2) [OF b4]
  have el: "map (\<lambda>r. Some (total_time_s r)) rs = suite_elapsed avail s env"
    using measured_neg2zero [OF b1] measured_logarithm [OF b2] modulus_speedup [OF b3]
      measured_vocabmap [OF b4]
    by (simp add: rs suite_elapsed_def)
  have z: "\<forall>r \<in> set rs. total_time_s r \<noteq> 0"
    using nz by (simp add: rs)
  have f1: "throughput_gbs r1 =
       real (batch_elements size_mb * 4) * real_of_int iters / total_time_s r1 / 10 ^ 9"
    using th(1) by simp
  have f2: "throughput_gbs r2 =
       real (batch_elements size_mb * 4) * real_of_int iters / total_time_s r2 / 10 ^ 9"
    using th(2) by simp
  have f3: "throughput_gbs r3 =
       real (batch_elements size_mb * 4) * real_of_int iters / total_time_s r3 / 10 ^ 9"
    using th(3) by simp
  have f4: "throughput_gbs r4 =
       real (32 * 256 * 4 + 32 * 256 * 128 * 4) * real_of_int iters / total_time_s r4 / 10 ^ 9"
    using th(4) by simp
  have nn: "0 \<le> throughput_gbs r" if "1 \<le> iters" "r \<in> set rs" "0 < total_time_s r" for r
  proof -
    from that(2) rs consider "r = r1" | "r = r2" | "r = r3" | "r = r4" by auto
    then show ?thesis
    proof cases
      case 1 with f1 that show ?thesis by simp
    next
      case 2 with f2 that show ?thesis by simp
    next
      case 3 with f3 that show ?thesis by simp
    next
      case 4 with f4 that show ?thesis by simp
    qed
  qed
  have be: "0 \<le> int (batch_elements size_mb) * 4" "int (batch_elements size_mb) * 4 \<le> 4227072"
    using batch_elements_le [of size_mb] by simp_all
  have fb: "throughput_gbs r \<le> float64_max"
    if i: "1 \<le> iters" "iters \<le> 2 ^ 63" and r: "r \<in> set rs" and t: "1 / 10 ^ 9 \<le> total_time_s r"
    for r
  proof -
    note bnd = throughput_float_bound [OF be i t]
    note bnd4 = throughput_float_bound [of 4227072 iters "total_time_s r", OF _ _ i t]
    from r rs consider "r = r1" | "r = r2" | "r = r3" | "r = r4" by auto
    then show ?thesis
    proof cases
      case 1 with th(1) bnd show ?thesis by (simp add: mult.assoc)
    next
      case 2 with th(2) bnd show ?thesis by (simp add: mult.assoc)
    next
      case 3 with th(3) bnd show ?thesis by (simp add: mult.assoc)
    next
      case 4 with th(4) bnd4 show ?thesis by simp
    qed
  qed
  from rs el z f1 f2 f3 f4 nn fb
  show "\<exists>r1 r2 r3 r4. rs = [r1, r2, r3, r4] \<and>
         map (\<lambda>r. Some (total_time_s r)) rs = suite_elapsed avail s env \<and>
         (\<forall>r \<in> set rs. total_time_s r \<noteq> 0) \<and>
         throughput_gbs r1 =
           real (batch_elements size_mb * 4) * real_of_int iters / total_time_s r1 / 10 ^ 9 \<and>
         throughput_gbs r2 =
           real (batch_elements size_mb * 4) * real_of_int iters / total_time_s r2 / 10 ^ 9 \<and>
         throughput_gbs r3 =
           real (batch_elements size_mb * 4) * real_of_int iters / total_time_s r3 / 10 ^ 9 \<and>
         throughput_gbs r4 =
           real (32 * 256 * 4 + 32 * 256 * 128 * 4) * real_of_int iters / total_time_s r4
             / 10 ^ 9 \<and>
         (1 \<le> iters \<longrightarrow> (\<forall>r \<in> set rs. 0 < total_time_s r \<longrightarrow> 0 \<le> throughput_gbs r)) \<and>
         (1 \<le> iters \<and> iters \<le> 2 ^ 63 \<longrightarrow>
            (\<forall>r \<in> set rs. 1 / 10 ^ 9 \<le> total_time_s r \<longrightarrow> throughput_gbs r \<le> float64_max))"
    by blast
next
  assume "0 \<le> size_mb \<and> (\<forall>t \<in> set (suite_elapsed avail s env). \<exists>x. t = Some x \<and> 0 < x)"
  then show "\<exists>s1 rs1 tr1. run_full_suite avail s env size_mb iters = Inr (s1, rs1, tr1)"
    using suite_returns by blast
qed

theorem suite_throughput_witness:
  "(0::real) \<le> 10 \<and>
   suite_elapsed False (suite_init False ''cpu'' True) demo_env =
     [Some 1, Some 1, Some 1, Some 1] \<and>
   (\<exists>s' rs tr.
     run_full_suite False (suite_init False ''cpu'' True) demo_env 10 100 = Inr (s', rs, tr) \<and>
     (\<exists>r1 r2 r3 r4. rs = [r1, r2, r3, r4] \<and>
       map (\<lambda>r. Some (total_time_s r)) rs = [Some 1, Some 1, Some 1, Some 1] \<and>
       (\<forall>r \<in> set rs. total_time_s r \<noteq> 0) \<and>
       throughput_gbs r1 = 4194304 * 100 / 1 / 10 ^ 9 \<and>
       throughput_gbs r2 = 4194304 * 100 / 1 / 10 ^ 9 \<and>
       throughput_gbs r3 = 4194304 * 100 / 1 / 10 ^ 9 \<and>
       throughput_gbs r4 = 4227072 * 100 / 1 / 10 ^ 9 \<and>
       (\<forall>r \<in> set rs. 0 \<le> throughput_gbs r \<and> throughput_gbs r \<le> float64_max)))"
proof -
  let ?s = "suite_init False ''cpu'' True"
  have e: "suite_elapsed False ?s demo_env = [Some 1, Some 1, Some 1, Some 1]"
    by (simp add: suite_elapsed_def measured_def demo_env_def)
  have p: "\<forall>t \<in> set (suite_elapsed False ?s demo_env). \<exists>x. t = Some x \<and> 0 < x"
    by (simp add: e)
  have b: "batch_elements 10 = 1048576"
    by (simp add: batch_elements_def elements_of_10)
  note t = suite_throughput [of False ?s demo_env 10 100]
  from t p obtain s' rs tr where
    h: "run_full_suite False ?s demo_env 10 100 = Inr (s', rs, tr)"
    by fastforce
  from suite_throughput [of False ?s demo_env 10 100 s' rs tr] h obtain r1 r2 r3 r4 where
    r: "rs = [r1, r2, r3, r4]"
      "map (\<lambda>r. Some (total_time_s r)) rs = suite_elapsed False ?s demo_env"
      "\<forall>r \<in> set rs. total_time_s r \<noteq> 0"
      "throughput_gbs r1 =
         real (batch_elements 10 * 4) * real_of_int 100 / total_time_s r1 / 10 ^ 9"
      "throughput_gbs r2 =
         real (batch_elements 10 * 4) * real_of_int 100 / total_time_s r2 / 10 ^ 9"
      "throughput_gbs r3 =
         real (batch_elements 10 * 4) * real_of_int 100 / total_time_s r3 / 10 ^ 9"
      "throughput_gbs r4 =
         real (32 * 256 * 4 + 32 * 256 * 128 * 4) * real_of_int 100 / total_time_s r4 / 10 ^ 9"
      "(1::int) \<le> 100 \<and> (100::int) \<le> 2 ^ 63 \<longrightarrow>
         (\<forall>r \<in> set rs. 1 / 10 ^ 9 \<le> total_time_s r \<longrightarrow> throughput_gbs r \<le> float64_max)"
    by blast
  from r(1,2) e have tt: "total_time_s r1 = 1" "total_time_s r2 = 1" "total_time_s r3 = 1"
    "total_time_s r4 = 1" by simp_all
  have v: "throughput_gbs r1 = 4194304 * 100 / 1 / 10 ^ 9"
    "throughput_gbs r2 = 4194304 * 100 / 1 / 10 ^ 9"
    "throughput_gbs r3 = 4194304 * 100 / 1 / 10 ^ 9"
    "throughput_gbs r4 = 4227072 * 100 / 1 / 10 ^ 9"
    using r(4-7) by (simp_all add: tt b)
  have fm: "\<forall>r \<in> set rs. 0 \<le> throughput_gbs r \<and> throughput_gbs r \<le> float64_max"
    using r(8) v by (simp add: r(1) tt)
  have m: "map (\<lambda>r. Some (total_time_s r)) rs = [Some 1, Some 1, Some 1, Some 1]"
    using r(2) e by simp
  from e h r(1) m r(3) v fm show ?thesis by fastforce
qed

text \<open>
  Claim C2.  In every result of a suite run the speedup is the CPU elapsed time divided by
  the accelerator elapsed time when the accelerator path ran, exactly \<open>1\<close> when the
  CPU-only path ran, and always \<open>1\<close> for the modulus benchmark, which has no accelerator
  path and reports the CPU time, for every device setting and data size.
\<close>

theorem suite_speedup:
  assumes "run_full_suite avail s env size_mb iters = Inr (s', rs, tr)"
  shows "\<exists>r1 r2 r3 r4. rs = [r1, r2, r3, r4] \<and>
     speedup_vs_cpu r3 = 1 \<and> total_time_s r3 = cpu_modulus env \<and>
     (if \<not> avail \<or> suite_device s = None then
        speedup_vs_cpu r1 = 1 \<and> total_time_s r1 = cpu_neg2zero env \<and>
        speedup_vs_cpu r2 = 1 \<and> total_time_s r2 = cpu_logarithm env \<and>
        speedup_vs_cpu r4 = 1 \<and> total_time_s r4 = cpu_vocabmap env
      else
        (\<exists>t1 t2 t4.
           hw_neg2zero env = HwTime t1 \<and> total_time_s r1 = t1 \<and>
           speedup_vs_cpu r1 = cpu_neg2zero env / t1 \<and>
           hw_logarithm env = HwTime t2 \<and> total_time_s r2 = t2 \<and>
           speedup_vs_cpu r2 = cpu_logarithm env / t2 \<and>
           hw_vocabmap env = HwTime t4 \<and> total_time_s r4 = t4 \<and>
           speedup_vs_cpu r4 = cpu_vocabmap env / t4))"
proof -
  from run_full_suite_Inr [OF assms] obtain r1 t1 r2 t2 r3 t3 r4 t4 where
    b1: "benchmark_neg2zero avail s (rnd_neg2zero env) size_mb iters
           (cpu_neg2zero env) (hw_neg2zero env) = Inr (r1, t1)" and
    b2: "benchmark_logarithm avail s (fp_ops env) (rnd_logarithm env) size_mb iters
           (cpu_logarithm env) (hw_logarithm env) = Inr (r2, t2)" and
    b3: "benchmark_modulus avail s (rnd_modulus env) size_mb iters 100 (cpu_modulus env) = Inr (r3, t3)" and
    b4: "benchmark_vocabmap avail s (rnd_indices env) (rnd_weight env) 10000 128 32 256
           iters (cpu_vocabmap env) (hw_vocabmap env) = Inr (r4, t4)" and
    rs: "rs = [r1, r2, r3, r4]" by blast
  show ?thesis
  proof (cases "\<not> avail \<or> suite_device s = None")
    case True
    with neg2zero_speedup [OF b1] logarithm_speedup [OF b2] modulus_speedup [OF b3]
      vocabmap_speedup [OF b4] rs
    show ?thesis by simp
  next
    case False
    with neg2zero_speedup [OF b1] logarithm_speedup [OF b2] modulus_speedup [OF b3]
      vocabmap_speedup [OF b4] rs
    show ?thesis by auto
  qed
qed

theorem suite_speedup_witness:
  "\<exists>s' rs tr.
     run_full_suite True (suite_init True ''cpu'' True) demo_env 10 100 = Inr (s', rs, tr) \<and>
     (\<exists>r1 r2 r3 r4. rs = [r1, r2, r3, r4] \<and>
        speedup_vs_cpu r3 = 1 \<and> total_time_s r3 = 1 \<and>
        total_time_s r1 = 2 \<and> speedup_vs_cpu r1 = 1 / 2 \<and>
        total_time_s r2 = 2 \<and> speedup_vs_cpu r2 = 1 / 2 \<and>
        total_time_s r4 = 2 \<and> speedup_vs_cpu r4 = 1 / 2)"
proof -
  from demo_run_hw obtain s' rs tr where
    h: "run_full_suite True (suite_init True ''cpu'' True) demo_env 10 100 = Inr (s', rs, tr)"
    by blast
  from suite_speedup [OF h] h show ?thesis
    by (auto simp: demo_env_def suite_init_def)
qed

lemma neg2zero_trace:
  assumes "benchmark_neg2zero avail s rnd size_mb iters cpu_time hw = Inr (r, tr)"
  shows "cpu_calls tr = replicate (nat iters) (batch_elements size_mb)"
    and "hw_calls tr = (if \<not> avail \<or> suite_device s = None then []
                       else replicate (nat iters) (batch_elements size_mb))"
    and "compiles tr = (if \<not> avail \<or> suite_device s = None then []
                        else [devtype (the (suite_device s))])"
  using neg2zero_result [OF assms]
  by (auto simp: cpu_calls_append hw_calls_append compiles_append calls_replicate calls_hw_trace
        split: if_splits)

lemma logarithm_trace:
  assumes "benchmark_logarithm avail s fp rnd size_mb iters cpu_time hw = Inr (r, tr)"
  shows "cpu_calls tr = replicate (nat iters) (batch_elements size_mb)"
    and "hw_calls tr = (if \<not> avail \<or> suite_device s = None then []
                       else replicate (nat iters) (batch_elements size_mb))"
    and "compiles tr = (if \<not> avail \<or> suite_device s = None then []
                        else [devtype (the (suite_device s))])"
  using logarithm_result [OF assms]
  by (auto simp: cpu_calls_append hw_calls_append compiles_append calls_replicate calls_hw_trace
        split: if_splits)

lemma modulus_trace:
  assumes "benchmark_modulus avail s rndi size_mb iters 100 cpu_time = Inr (r, tr)"
  shows "cpu_calls tr = replicate (nat iters) (batch_elements size_mb)"
    and "hw_calls tr = []" and "compiles tr = []"
  using modulus_result [OF assms] by (auto simp: calls_replicate)

lemma vocabmap_trace:
  assumes "benchmark_vocabmap avail s rndi w_rnd 10000 128 32 256 iters cpu_time hw = Inr (r, tr)"
  shows "cpu_calls tr = replicate (nat iters) 8192"
    and "hw_calls tr = (if \<not> avail \<or> suite_device s = None then []
                       else replicate (nat iters) 8192)"
    and "compiles tr = (if \<not> avail \<or> suite_device s = None then []
                        else [devtype (the (suite_device s))])"
  using vocabmap_result [OF assms]
  by (auto simp: cpu_calls_append hw_calls_append compiles_append calls_replicate calls_hw_trace
        split: if_splits)

section \<open>Batch size and iteration count\<close>

text \<open>
  Claim C3, as amended.  Every timing loop of a suite run works on a batch of
  \<open>min(1048576, element count)\<close> elements, so on at most 1,048,576 elements, and makes
  exactly \<open>iterations\<close> calls on that same batch, whatever data size was requested: the
  iteration count is the caller's argument and does not grow with the size.  (The
  vocabulary lookup works on its fixed \<open>32 * 256\<close> indices.)  The elements of the generated
  data beyond the batch are never processed.
\<close>

theorem suite_batches:
  assumes "run_full_suite avail s env size_mb iters = Inr (s', rs, tr)"
  shows "batch_elements size_mb \<le> 1048576 \<and>
     cpu_calls tr =
       replicate (nat iters) (batch_elements size_mb) @
       replicate (nat iters) (batch_elements size_mb) @
       replicate (nat iters) (batch_elements size_mb) @
       replicate (nat iters) 8192 \<and>
     hw_calls tr =
       (if \<not> avail \<or> suite_device s = None then []
        else replicate (nat iters) (batch_elements size_mb) @
             replicate (nat iters) (batch_elements size_mb) @
             replicate (nat iters) 8192)"
proof -
  from run_full_suite_Inr [OF assms] obtain r1 t1 r2 t2 r3 t3 r4 t4 where
    b1: "benchmark_neg2zero avail s (rnd_neg2zero env) size_mb iters
           (cpu_neg2zero env) (hw_neg2zero env) = Inr (r1, t1)" and
    b2: "benchmark_logarithm avail s (fp_ops env) (rnd_logarithm env) size_mb iters
           (cpu_logarithm env) (hw_logarithm env) = Inr (r2, t2)" and
    b3: "benchmark_modulus avail s (rnd_modulus env) size_mb iters 100 (cpu_modulus env) = Inr (r3, t3)" and
    b4: "benchmark_vocabmap avail s (rnd_indices env) (rnd_weight env) 10000 128 32 256
           iters (cpu_vocabmap env) (hw_vocabmap env) = Inr (r4, t4)" and
    tr: "tr = t1 @ t2 @ t3 @ t4" by blast
  have c: "cpu_calls tr =
       replicate (nat iters) (batch_elements size_mb) @
       replicate (nat iters) (batch_elements size_mb) @
       replicate (nat iters) (batch_elements size_mb) @
       replicate (nat iters) 8192"
    by (simp add: tr cpu_calls_append neg2zero_trace(1) [OF b1] logarithm_trace(1) [OF b2]
          modulus_trace(1) [OF b3] vocabmap_trace(1) [OF b4])
  have h: "hw_calls tr =
       (if \<not> avail \<or> suite_device s = None then []
        else replicate (nat iters) (batch_elements size_mb) @
             replicate (nat iters) (batch_elements size_mb) @
             replicate (nat iters) 8192)"
    by (simp add: tr hw_calls_append neg2zero_trace(2) [OF b1] logarithm_trace(2) [OF b2]
          modulus_trace(2) [OF b3] vocabmap_trace(2) [OF b4])
  from c h batch_elements_le show ?thesis by blast
qed

theorem suite_batches_witness:
  "\<exists>s' rs tr.
     run_full_suite False (suite_init False ''cpu'' True) demo_env 10 100 = Inr (s', rs, tr) \<and>
     batch_elements 10 \<le> 1048576 \<and>
     cpu_calls tr =
       replicate (nat 100) (batch_elements 10) @
       replicate (nat 100) (batch_elements 10) @
       replicate (nat 100) (batch_elements 10) @
       replicate (nat 100) 8192 \<and>
     hw_calls tr = []"
proof -
  from demo_run_cpu obtain s' rs tr where
    h: "run_full_suite False (suite_init False ''cpu'' True) demo_env 10 100 = Inr (s', rs, tr)"
    by blast
  from suite_batches [OF h] h show ?thesis by auto
qed

lemma elements_of_1000: "elements_of 1000 = 262144000"
  by (simp add: elements_of_def py_int_def)

lemma sum_list_replicate_nat: "sum_list (replicate n (k::nat)) = n * k"
  by (induction n) auto

text \<open>
  Claim C3 as stated fails: with 100 iterations, a request of 1000 MB (262,144,000
  elements) runs the same 100 calls on 1,048,576 elements as a request of 10 MB does, so
  the iteration count has not grown and only 104,857,600 elements are processed.
\<close>

theorem iteration_count_counterexample:
  "benchmark_neg2zero False (suite_init False ''cpu'' True) zero_draws 1000 100 1 HwRaises =
     Inr (\<lparr> name = ''Neg2Zero'', device = ''CPU'', data_size_mb = 1000, iterations = 100,
            total_time_s = 1, throughput_gbs = 1048576 * 4 * 100 / 10 ^ 9, speedup_vs_cpu = 1,
            power_watts = None, temperature_c = None \<rparr>,
          replicate 100 (CpuIter 1048576)) \<and>
   benchmark_neg2zero False (suite_init False ''cpu'' True) zero_draws 10 100 1 HwRaises =
     Inr (\<lparr> name = ''Neg2Zero'', device = ''CPU'', data_size_mb = 10, iterations = 100,
            total_time_s = 1, throughput_gbs = 1048576 * 4 * 100 / 10 ^ 9, speedup_vs_cpu = 1,
            power_watts = None, temperature_c = None \<rparr>,
          replicate 100 (CpuIter 1048576)) \<and>
   elements_of 1000 = 262144000 \<and>
   sum_list (cpu_calls (replicate 100 (CpuIter 1048576))) = 104857600 \<and>
   \<not> (nat (elements_of 1000) \<le> sum_list (cpu_calls (replicate 100 (CpuIter 1048576))))"
proof -
  have a: "benchmark_neg2zero False (suite_init False ''cpu'' True) zero_draws 1000 100 1 HwRaises =
     Inr (\<lparr> name = ''Neg2Zero'', device = ''CPU'', data_size_mb = 1000, iterations = 100,
            total_time_s = 1, throughput_gbs = 1048576 * 4 * 100 / 10 ^ 9, speedup_vs_cpu = 1,
            power_watts = None, temperature_c = None \<rparr>,
          replicate 100 (CpuIter 1048576))"
    by (simp add: benchmark_neg2zero_eq elements_of_1000 batch_elements_def cpu_result_def
          py_truediv_def del: replicate.simps)
  have b: "benchmark_neg2zero False (suite_init False ''cpu'' True) zero_draws 10 100 1 HwRaises =
     Inr (\<lparr> name = ''Neg2Zero'', device = ''CPU'', data_size_mb = 10, iterations = 100,
            total_time_s = 1, throughput_gbs = 1048576 * 4 * 100 / 10 ^ 9, speedup_vs_cpu = 1,
            power_watts = None, temperature_c = None \<rparr>,
          replicate 100 (CpuIter 1048576))"
    by (simp add: benchmark_neg2zero_eq elements_of_10 batch_elements_def cpu_result_def
          py_truediv_def del: replicate.simps)
  have c: "sum_list (cpu_calls (replicate 100 (CpuIter 1048576))) = 104857600"
    by (simp add: calls_replicate sum_list_replicate_nat del: replicate.simps)
  from a b c elements_of_1000 show ?thesis by simp
qed

section \<open>The device choice \<open>cpu\<close>\<close>

text \<open>
  Claim C10.  With the accelerator library importable, the device choice \<open>cpu\<close> makes the
  suite hold a Golden (simulator) device; a suite run then compiles the clamp, logarithm
  and vocabulary operators for that device, times the compiled calls, and labels every
  result \<open>cpu\<close> while three of them report the simulator's elapsed time.  For every device
  choice, a run without compilation and device calls whose results are all labelled \<open>CPU\<close>
  happens exactly when the library is unavailable.
\<close>

theorem cpu_choice_runs_simulator:
  "suite_device (suite_init True (device_string Dev_cpu) vb) =
     Some \<lparr> arch = Grayskull, devtype = Golden \<rparr> \<and>
   (run_full_suite True (suite_init True (device_string Dev_cpu) vb) env size_mb iters =
      Inr (s', rs, tr) \<longrightarrow>
      (\<forall>r \<in> set rs. device r = ''cpu'') \<and>
      compiles tr = [Golden, Golden, Golden] \<and>
      hw_calls tr =
        replicate (nat iters) (batch_elements size_mb) @
        replicate (nat iters) (batch_elements size_mb) @
        replicate (nat iters) 8192 \<and>
      (\<exists>r1 r2 r3 r4 t1 t2 t4. rs = [r1, r2, r3, r4] \<and>
         hw_neg2zero env = HwTime t1 \<and> total_time_s r1 = t1 \<and>
         hw_logarithm env = HwTime t2 \<and> total_time_s r2 = t2 \<and>
         total_time_s r3 = cpu_modulus env \<and>
         hw_vocabmap env = HwTime t4 \<and> total_time_s r4 = t4)) \<and>
   (run_full_suite avail (suite_init avail (device_string d) vb) env2 size_mb2 iters2 =
      Inr (s2, rs2, tr2) \<longrightarrow>
      (compiles tr2 = [] \<and> hw_calls tr2 = [] \<and> (\<forall>r \<in> set rs2. device r = ''CPU'')
         \<longleftrightarrow> \<not> avail))"
proof (intro conjI impI)
  show "suite_device (suite_init True (device_string Dev_cpu) vb) =
     Some \<lparr> arch = Grayskull, devtype = Golden \<rparr>"
    by (simp add: suite_init_def)
next
  assume h: "run_full_suite True (suite_init True (device_string Dev_cpu) vb) env size_mb iters =
      Inr (s', rs, tr)"
  let ?s = "suite_init True (device_string Dev_cpu) vb"
  have d: "suite_device ?s = Some \<lparr> arch = Grayskull, devtype = Golden \<rparr>"
    "device_type ?s = ''cpu''"
    by (simp_all add: suite_init_def)
  from run_full_suite_Inr [OF h] obtain r1 t1 r2 t2 r3 t3 r4 t4 where
    b1: "benchmark_neg2zero True ?s (rnd_neg2zero env) size_mb iters
           (cpu_neg2zero env) (hw_neg2zero env) = Inr (r1, t1)" and
    b2: "benchmark_logarithm True ?s (fp_ops env) (rnd_logarithm env) size_mb iters
           (cpu_logarithm env) (hw_logarithm env) = Inr (r2, t2)" and
    b3: "benchmark_modulus True ?s (rnd_modulus env) size_mb iters 100 (cpu_modulus env) = Inr (r3, t3)" and
    b4: "benchmark_vocabmap True ?s (rnd_indices env) (rnd_weight env) 10000 128 32 256
           iters (cpu_vocabmap env) (hw_vocabmap env) = Inr (r4, t4)" and
    rs: "rs = [r1, r2, r3, r4]" and tr: "tr = t1 @ t2 @ t3 @ t4" by blast
  note sp = neg2zero_speedup [OF b1] logarithm_speedup [OF b2] modulus_speedup [OF b3]
    vocabmap_speedup [OF b4]
  show "\<forall>r \<in> set rs. device r = ''cpu''"
    using sp d rs by auto
  show "compiles tr = [Golden, Golden, Golden]"
    using d by (simp add: tr compiles_append neg2zero_trace(3) [OF b1] logarithm_trace(3) [OF b2]
          modulus_trace(3) [OF b3] vocabmap_trace(3) [OF b4])
  show "hw_calls tr =
        replicate (nat iters) (batch_elements size_mb) @
        replicate (nat iters) (batch_elements size_mb) @
        replicate (nat iters) 8192"
    using d by (simp add: tr hw_calls_append neg2zero_trace(2) [OF b1] logarithm_trace(2) [OF b2]
          modulus_trace(2) [OF b3] vocabmap_trace(2) [OF b4])
  show "\<exists>r1 r2 r3 r4 t1 t2 t4. rs = [r1, r2, r3, r4] \<and>
         hw_neg2zero env = HwTime t1 \<and> total_time_s r1 = t1 \<and>
         hw_logarithm env = HwTime t2 \<and> total_time_s r2 = t2 \<and>
         total_time_s r3 = cpu_modulus env \<and>
         hw_vocabmap env = HwTime t4 \<and> total_time_s r4 = t4"
    using sp d rs by auto
next
  assume h: "run_full_suite avail (suite_init avail (device_string d) vb) env2 size_mb2 iters2 =
      Inr (s2, rs2, tr2)"
  let ?s = "suite_init avail (device_string d) vb"
  have d: "suite_device ?s = None \<longleftrightarrow> \<not> avail"
    by (simp add: suite_init_def)
  from run_full_suite_Inr [OF h] obtain r1 t1 r2 t2 r3 t3 r4 t4 where
    b1: "benchmark_neg2zero avail ?s (rnd_neg2zero env2) size_mb2 iters2
           (cpu_neg2zero env2) (hw_neg2zero env2) = Inr (r1, t1)" and
    b2: "benchmark_logarithm avail ?s (fp_ops env2) (rnd_logarithm env2) size_mb2 iters2
           (cpu_logarithm env2) (hw_logarithm env2) = Inr (r2, t2)" and
    b3: "benchmark_modulus avail ?s (rnd_modulus env2) size_mb2 iters2 100 (cpu_modulus env2) = Inr (r3, t3)" and
    b4: "benchmark_vocabmap avail ?s (rnd_indices env2) (rnd_weight env2) 10000 128 32 256
           iters2 (cpu_vocabmap env2) (hw_vocabmap env2) = Inr (r4, t4)" and
    rs: "rs2 = [r1, r2, r3, r4]" and tr: "tr2 = t1 @ t2 @ t3 @ t4" by blast
  note sp = neg2zero_speedup [OF b1] logarithm_speedup [OF b2] modulus_speedup [OF b3]
    vocabmap_speedup [OF b4]
  have c: "compiles tr2 = (if \<not> avail then [] else
      [devtype (the (suite_device ?s)), devtype (the (suite_device ?s)), devtype (the (suite_device ?s))])"
    using d by (simp add: tr compiles_append neg2zero_trace(3) [OF b1] logarithm_trace(3) [OF b2]
          modulus_trace(3) [OF b3] vocabmap_trace(3) [OF b4])
  have hc: "\<not> avail \<Longrightarrow> hw_calls tr2 = []"
    using d by (simp add: tr hw_calls_append neg2zero_trace(2) [OF b1] logarithm_trace(2) [OF b2]
          modulus_trace(2) [OF b3] vocabmap_trace(2) [OF b4])
  have dv: "\<not> avail \<Longrightarrow> \<forall>r \<in> set rs2. device r = ''CPU''"
    using sp d rs by auto
  show "(compiles tr2 = [] \<and> hw_calls tr2 = [] \<and> (\<forall>r \<in> set rs2. device r = ''CPU''))
         \<longleftrightarrow> \<not> avail"
    using c hc dv by (cases avail) auto
qed

theorem cpu_choice_runs_simulator_witness:
  "\<exists>s' rs tr s2 rs2 tr2.
     run_full_suite True (suite_init True (device_string Dev_cpu) True) demo_env 10 100 =
       Inr (s', rs, tr) \<and>
     (\<forall>r \<in> set rs. device r = ''cpu'') \<and>
     compiles tr = [Golden, Golden, Golden] \<and>
     (\<exists>r1 r2 r3 r4. rs = [r1, r2, r3, r4] \<and> total_time_s r1 = 2 \<and> total_time_s r2 = 2 \<and>
        total_time_s r3 = 1 \<and> total_time_s r4 = 2) \<and>
     run_full_suite False (suite_init False (device_string Dev_cpu) True) demo_env 10 100 =
       Inr (s2, rs2, tr2) \<and>
     compiles tr2 = [] \<and> hw_calls tr2 = [] \<and> (\<forall>r \<in> set rs2. device r = ''CPU'')"
proof -
  from demo_run_hw obtain s' rs tr where
    h: "run_full_suite True (suite_init True (device_string Dev_cpu) True) demo_env 10 100 =
          Inr (s', rs, tr)"
    by auto
  from demo_run_cpu obtain s2 rs2 tr2 where
    h2: "run_full_suite False (suite_init False (device_string Dev_cpu) True) demo_env 10 100 =
          Inr (s2, rs2, tr2)"
    by auto
  from cpu_choice_runs_simulator [of True demo_env 10 100 s' rs tr False Dev_cpu demo_env 10 100
      s2 rs2 tr2] h h2
  show ?thesis
    by (auto simp: demo_env_def)
qed

section \<open>The synthetic data generator\<close>

lemma generate_count:
  assumes "0 \<le> size_mb"
  shows "\<exists>xs. generate_synthetic_data rnd size_mb dt = Inr (FloatTensor xs) \<and>
           int (length xs) = \<lfloor>size_mb * 1024 * 1024 / 4\<rfloor>"
proof -
  have e: "elements_of size_mb = \<lfloor>size_mb * 1024 * 1024 / 4\<rfloor>"
    using assms by (simp add: elements_of_def py_int_def)
  have n: "0 \<le> elements_of size_mb" using assms by (rule elements_of_nonneg)
  from generate_ok [OF n, of rnd dt] obtain xs where
    g: "generate_synthetic_data rnd size_mb dt = Inr (FloatTensor xs)"
    and l: "length xs = nat (elements_of size_mb)" by blast
  from l n have "int (length xs) = elements_of size_mb" by simp
  with g e show ?thesis by simp
qed

lemma generate_empty:
  "elements_of size_mb = 0 \<Longrightarrow> generate_synthetic_data rnd size_mb dt = Inr (FloatTensor [])"
  by (simp add: generate_synthetic_data_def torch_randn_def)

lemma generate_dtype:
  "generate_synthetic_data rnd size_mb dt = Inr t \<Longrightarrow> tensor_dtype t = Float32"
  by (auto simp: generate_synthetic_data_def split: sum.splits)

text \<open>
  Claim C9.  The generator ignores its element type: asked for 32-bit integers it returns
  the same float tensor as for 32-bit floats, here the two values \<open>2 z - 0.5\<close> of the
  draws \<open>z = 0, 1\<close>, and not integers of a bounded range.
\<close>

theorem generate_ignores_dtype:
  "generate_synthetic_data rnd size_mb Int32 = generate_synthetic_data rnd size_mb Float32 \<and>
   generate_synthetic_data count_draws (1 / 100000) Int32 = Inr (FloatTensor [- 1 / 2, 3 / 2])"
  by (simp add: generate_synthetic_data_def torch_randn_def elements_of_def py_int_def upt_rec
        count_draws_def)

section \<open>The logarithm\<close>

lemma ln_offset:
  fixes x e :: real
  assumes "0 < x" and "0 < e"
  shows "0 < ln (x + e) - ln x" and "ln (x + e) - ln x \<le> e / x"
proof -
  have xe: "0 < x + e" using assms by simp
  have "ln (x + e) - ln x = ln ((x + e) / x)"
    using assms(1) xe by (simp add: ln_div)
  also have "(x + e) / x = 1 + e / x"
    using assms by (simp add: field_simps)
  finally have eq: "ln (x + e) - ln x = ln (1 + e / x)" .
  have p: "0 < e / x" using assms by simp
  show "0 < ln (x + e) - ln x" using p by (simp add: eq)
  show "ln (x + e) - ln x \<le> e / x"
    using ln_add_one_self_le_self [of "e / x"] p by (simp add: eq)
qed

lemma ln_two_ge_half: "1 / 2 \<le> ln (2::real)"
proof -
  have "ln (1 / 2 :: real) \<le> 1 / 2 - 1" by (rule ln_le_minus_one) simp
  moreover have "ln (1 / 2 :: real) = - ln 2" by (simp add: ln_div)
  ultimately show ?thesis by simp
qed

lemma ln_round_down: "- (1 / 16777215) \<le> ln (16777215 / 16777216 :: real)"
proof -
  have "ln (16777216 / 16777215 :: real) \<le> 16777216 / 16777215 - 1"
    by (rule ln_le_minus_one) simp
  moreover have "ln (16777216 / 16777215 :: real) = - ln (16777215 / 16777216)"
    by (simp add: ln_div)
  ultimately show ?thesis by simp
qed

text \<open>The argument handed to the logarithm is positive whatever the element is.\<close>

lemma rounded_positive:
  assumes "mono (fl_round fp)" and "0 < fl_round fp (fl_round fp log_eps)"
  shows "0 < fl_round fp (\<bar>g\<bar> + fl_round fp log_eps)"
proof -
  have "fl_round fp log_eps \<le> \<bar>g\<bar> + fl_round fp log_eps" by simp
  from monoD [OF assms(1) this] assms(2) show ?thesis by linarith
qed

lemma cpu_log_values:
  assumes "mono (fl_round fp)" and "0 < fl_round fp (fl_round fp log_eps)"
  shows "torch_log fp (slice_to n (logarithm_data fp (FloatTensor gs))) =
     map (\<lambda>g. Finite (fl_log fp (fl_round fp (\<bar>g\<bar> + fl_round fp log_eps)))) (take n gs)"
  by (simp add: torch_log_def logarithm_data_def add_scalar_def take_map comp_def
        log_value_def rounded_positive [OF assms])

text \<open>
  The device operator adds the offset once more to data that already carries it, and
  takes no absolute value of its own input.
\<close>

lemma LogOp_values:
  "LogOp_forward fp (FloatTensor xs) =
     map (\<lambda>x. log_value fp (fl_round fp (x + fl_round fp log_eps))) xs"
  by (simp add: LogOp_forward_def torch_log_def add_scalar_def comp_def)

text \<open>
  With a rounding of relative error at most \<open>2^-24\<close> and a logarithm of relative error at
  most \<open>2^-22\<close> on the normal range, the result for an element \<open>x\<close> in \<open>[2, 2^126]\<close> is
  within the relative tolerance \<open>1e-5\<close> of \<open>ln x\<close>.
\<close>

lemma log_result_rtol:
  assumes R: "\<forall>y. 1 / 2 ^ 126 \<le> y \<and> y \<le> 2 ^ 127 \<longrightarrow> \<bar>fl_round fp y - y\<bar> \<le> y / 2 ^ 24"
    and L: "\<forall>d. 1 \<le> d \<and> d \<le> 2 ^ 127 \<longrightarrow> \<bar>fl_log fp d - ln d\<bar> \<le> ln d / 2 ^ 22"
    and x: "2 \<le> x" "x \<le> 2 ^ 126"
  shows "within_rtol (1 / 10 ^ 5) (ln x) (fl_log fp (fl_round fp (\<bar>x\<bar> + fl_round fp log_eps)))"
proof -
  define e where "e = fl_round fp log_eps"
  define y where "y = x + e"
  define d where "d = fl_round fp y"
  define P where "P = (2::real) ^ 126"
  have P1: "1 \<le> P" and P2: "(2::real) ^ 127 = 2 * P" and P3: "1 / P \<le> 1"
    by (simp_all add: P_def)
  have T: "(2::real) ^ 24 = 16777216" "(2::real) ^ 22 = 4194304" by simp_all
  have Rn: "\<bar>fl_round fp z - z\<bar> \<le> z / 16777216" if "1 / P \<le> z" "z \<le> 2 * P" for z
    using R that by (simp add: P_def)
  have Ln: "\<bar>fl_log fp z - ln z\<bar> \<le> ln z / 4194304" if "1 \<le> z" "z \<le> 2 * P" for z
    using L that by (simp add: P_def)
  have le: "log_eps = 1 / 10000000" by (simp add: log_eps_def)
  have "1 / P \<le> 1 / 10000000" by (simp add: P_def)
  moreover have "(1 / 10000000 :: real) \<le> 2 * P" using P1 by linarith
  ultimately have e1: "\<bar>e - 1 / 10000000\<bar> \<le> (1 / 10000000) / 16777216"
    using Rn [of "1 / 10000000"] by (simp add: e_def le)
  have e_pos: "0 < e" using e1 by linarith
  have e_le: "e \<le> 1 / 1000000" using e1 by linarith
  have y_lo: "2 \<le> y" using x(1) e_pos unfolding y_def by linarith
  have y_hi: "y \<le> P + 1 / 1000000" using x(2) e_le unfolding y_def P_def by linarith
  have "1 / P \<le> y" "y \<le> 2 * P" using y_lo y_hi P1 P3 by linarith+
  then have d1: "\<bar>d - y\<bar> \<le> y / 16777216" unfolding d_def by (rule Rn)
  have d_up: "d \<le> y * (16777217 / 16777216)" using d1 by linarith
  have d_dn: "y * (16777215 / 16777216) \<le> d" using d1 by linarith
  have d_lo: "1 \<le> d" using d_dn y_lo by linarith
  have d_hi: "d \<le> 2 * P" using d_up y_hi P1 by linarith
  have y_pos: "0 < y" and d_pos: "0 < d" and x_pos: "0 < x"
    using y_lo d_lo x(1) by linarith+
  have "ln 2 \<le> ln x" using x(1) by simp
  with ln_two_ge_half have lnx: "1 / 2 \<le> ln x" by linarith
  have "ln y - ln x \<le> e / x" unfolding y_def by (rule ln_offset(2) [OF x_pos e_pos])
  also have "e / x \<le> e / 1"
    using x(1) e_pos by (intro divide_left_mono) simp_all
  finally have yx_up: "ln y - ln x \<le> e" by simp
  have "x \<le> y" using e_pos unfolding y_def by linarith
  then have yx_dn: "ln x \<le> ln y" using x_pos y_pos by simp
  have "ln d \<le> ln (y * (16777217 / 16777216))"
  proof -
    have "0 < y * (16777217 / 16777216)" using y_pos by simp
    with d_pos d_up show ?thesis by (simp only: ln_le_cancel_iff)
  qed
  also have "\<dots> = ln y + ln (16777217 / 16777216)"
    by (rule ln_mult_pos) (use y_pos in simp_all)
  finally have "ln d \<le> ln y + ln (16777217 / 16777216)" .
  moreover have "ln (16777217 / 16777216 :: real) \<le> 1 / 16777216"
    using ln_add_one_self_le_self [of "1 / 16777216 :: real"] by simp
  ultimately have dy_up: "ln d \<le> ln y + 1 / 16777216" by linarith
  have "ln y + ln (16777215 / 16777216) = ln (y * (16777215 / 16777216))"
    by (rule ln_mult_pos [symmetric]) (use y_pos in simp_all)
  also have "\<dots> \<le> ln d"
  proof -
    have "0 < y * (16777215 / 16777216)" using y_pos by simp
    then show ?thesis using d_dn d_pos by (simp only: ln_le_cancel_iff)
  qed
  finally have "ln y + ln (16777215 / 16777216) \<le> ln d" .
  with ln_round_down have dy_dn: "ln y - 1 / 16777215 \<le> ln d" by linarith
  have dx_up: "ln d - ln x \<le> 2 / 1000000" using dy_up yx_up e_le by linarith
  have dx_dn: "- (2 / 1000000) \<le> ln d - ln x" using dy_dn yx_dn by linarith
  have lnd: "0 \<le> ln d" using d_lo by simp
  have l: "\<bar>fl_log fp d - ln d\<bar> \<le> ln d / 4194304" using d_lo d_hi by (rule Ln)
  have fin: "\<bar>fl_log fp d - ln x\<bar> \<le> 1 / 100000 * ln x"
    using l dx_up dx_dn lnx lnd by linarith
  have al: "\<bar>ln x\<bar> = ln x" using lnx by simp
  have ax: "\<bar>x\<bar> = x" using x_pos by simp
  have "within_rtol (1 / 100000) (ln x) (fl_log fp d)"
    unfolding within_rtol_def al by (rule fin)
  then show ?thesis
    by (simp add: d_def y_def e_def ax)
qed

lemma rtol_at_one: "within_rtol tol 0 y \<longleftrightarrow> y = 0"
  by (simp add: within_rtol_def)

text \<open>
  At \<open>x = 1\<close> the argument of the logarithm stays above \<open>1\<close> under any rounding of
  relative error at most \<open>2^-24\<close>, so a logarithm that is positive above \<open>1\<close> gives a
  result that is not within any relative tolerance of \<open>ln 1\<close>.
\<close>

lemma rtol_fails_at_one:
  assumes R: "\<forall>y. 1 / 2 ^ 126 \<le> y \<and> y \<le> 2 ^ 127 \<longrightarrow> \<bar>fl_round fp y - y\<bar> \<le> y / 2 ^ 24"
    and L: "\<forall>d. 1 < d \<longrightarrow> 0 < fl_log fp d"
  shows "\<not> within_rtol tol (ln 1) (fl_log fp (fl_round fp (\<bar>1\<bar> + fl_round fp log_eps)))"
proof -
  define e where "e = fl_round fp log_eps"
  define d where "d = fl_round fp (1 + e)"
  have Rn: "\<bar>fl_round fp z - z\<bar> \<le> z / 16777216" if "1 / 10000000 \<le> z" "z \<le> 2" for z
  proof -
    have "(1 / 2 ^ 126 :: real) \<le> 1 / 10000000" "(2::real) \<le> 2 ^ 127" by simp_all
    with that have "1 / 2 ^ 126 \<le> z \<and> z \<le> 2 ^ 127" by linarith
    with R show ?thesis by simp
  qed
  have "\<bar>e - 1 / 10000000\<bar> \<le> (1 / 10000000) / 16777216"
    using Rn [of "1 / 10000000"] by (simp add: e_def log_eps_def)
  then have e: "9 / 100000000 \<le> e" "e \<le> 1" by linarith+
  then have "\<bar>d - (1 + e)\<bar> \<le> (1 + e) / 16777216"
    unfolding d_def by (intro Rn) linarith+
  then have "(1 + e) - (1 + e) / 16777216 \<le> d" by linarith
  moreover have "(1 + e) - (1 + e) / 16777216 = (1 + e) * (16777215 / 16777216)"
    by (simp add: field_simps)
  moreover have "1 < (1 + 9 / 100000000) * (16777215 / 16777216 :: real)" by simp
  moreover have "(1 + 9 / 100000000) * (16777215 / 16777216 :: real) \<le>
      (1 + e) * (16777215 / 16777216)"
    using e(1) by (intro mult_right_mono) simp_all
  ultimately have "1 < d" by linarith
  with L have "fl_log fp d \<noteq> 0" by fastforce
  then show ?thesis
    by (simp add: rtol_at_one d_def e_def)
qed

text \<open>
  Claim C5, as amended.  On the CPU path the logarithm benchmark applies the float32
  logarithm to \<open>fl(|g| + fl(1e-7))\<close> for every generated element \<open>g\<close> of the batch, \<open>fl\<close>
  being the rounding to float32.  With a monotone rounding that keeps \<open>1e-7\<close> positive, that
  argument is positive for every \<open>g\<close>, zero and negative ones included, so every result is
  a finite logarithm and none is \<open>-inf\<close> or \<open>nan\<close>.  With a rounding of relative error at
  most \<open>2^-24\<close> and a logarithm of relative error at most \<open>2^-22\<close>, the result matches
  \<open>ln x\<close> within the relative tolerance \<open>1e-5\<close> for \<open>2 \<le> x \<le> 2^126\<close>.
\<close>

theorem logarithm_cpu_path:
  assumes "mono (fl_round fp)" and "0 < fl_round fp (fl_round fp log_eps)"
  shows "torch_log fp (slice_to n (logarithm_data fp (FloatTensor gs))) =
       map (\<lambda>g. Finite (fl_log fp (fl_round fp (\<bar>g\<bar> + fl_round fp log_eps)))) (take n gs) \<and>
     (\<forall>g. 0 < fl_round fp (\<bar>g\<bar> + fl_round fp log_eps)) \<and>
     ((\<forall>y. 1 / 2 ^ 126 \<le> y \<and> y \<le> 2 ^ 127 \<longrightarrow> \<bar>fl_round fp y - y\<bar> \<le> y / 2 ^ 24) \<and>
      (\<forall>d. 1 \<le> d \<and> d \<le> 2 ^ 127 \<longrightarrow> \<bar>fl_log fp d - ln d\<bar> \<le> ln d / 2 ^ 22) \<and>
      2 \<le> x \<and> x \<le> 2 ^ 126 \<longrightarrow>
      within_rtol (1 / 10 ^ 5) (ln x)
        (fl_log fp (fl_round fp (\<bar>x\<bar> + fl_round fp log_eps))))"
proof (intro conjI allI impI)
  show "torch_log fp (slice_to n (logarithm_data fp (FloatTensor gs))) =
       map (\<lambda>g. Finite (fl_log fp (fl_round fp (\<bar>g\<bar> + fl_round fp log_eps)))) (take n gs)"
    by (rule cpu_log_values [OF assms])
next
  fix g show "0 < fl_round fp (\<bar>g\<bar> + fl_round fp log_eps)"
    by (rule rounded_positive [OF assms])
next
  assume "(\<forall>y. 1 / 2 ^ 126 \<le> y \<and> y \<le> 2 ^ 127 \<longrightarrow> \<bar>fl_round fp y - y\<bar> \<le> y / 2 ^ 24) \<and>
      (\<forall>d. 1 \<le> d \<and> d \<le> 2 ^ 127 \<longrightarrow> \<bar>fl_log fp d - ln d\<bar> \<le> ln d / 2 ^ 22) \<and>
      2 \<le> x \<and> x \<le> 2 ^ 126"
  then show "within_rtol (1 / 10 ^ 5) (ln x)
        (fl_log fp (fl_round fp (\<bar>x\<bar> + fl_round fp log_eps)))"
    by (intro log_result_rtol) blast+
qed

lemma skewed_ops_round:
  "mono (fl_round skewed_ops)"
  "0 < fl_round skewed_ops (fl_round skewed_ops log_eps)"
  "\<forall>y. 1 / 2 ^ 126 \<le> y \<and> y \<le> 2 ^ 127 \<longrightarrow> \<bar>fl_round skewed_ops y - y\<bar> \<le> y / 2 ^ 24"
proof -
  show "mono (fl_round skewed_ops)"
    by (rule monoI) (simp add: skewed_ops_def)
  show "0 < fl_round skewed_ops (fl_round skewed_ops log_eps)"
    by (simp add: skewed_ops_def log_eps_def)
  show "\<forall>y. 1 / 2 ^ 126 \<le> y \<and> y \<le> 2 ^ 127 \<longrightarrow> \<bar>fl_round skewed_ops y - y\<bar> \<le> y / 2 ^ 24"
  proof (intro allI impI)
    fix y :: real assume "1 / 2 ^ 126 \<le> y \<and> y \<le> 2 ^ 127"
    then have "0 \<le> y" by simp
    then show "\<bar>fl_round skewed_ops y - y\<bar> \<le> y / 2 ^ 24"
      by (simp add: skewed_ops_def algebra_simps)
  qed
qed

lemma skewed_ops_log:
  "\<forall>d. 1 \<le> d \<and> d \<le> 2 ^ 127 \<longrightarrow> \<bar>fl_log skewed_ops d - ln d\<bar> \<le> ln d / 2 ^ 22"
proof (intro allI impI)
  fix d :: real assume "1 \<le> d \<and> d \<le> 2 ^ 127"
  then have "0 \<le> ln d" by simp
  then show "\<bar>fl_log skewed_ops d - ln d\<bar> \<le> ln d / 2 ^ 22"
    by (simp add: skewed_ops_def algebra_simps)
qed

theorem logarithm_cpu_path_witness:
  "mono (fl_round skewed_ops) \<and>
   0 < fl_round skewed_ops (fl_round skewed_ops log_eps) \<and>
   torch_log skewed_ops (slice_to 3 (logarithm_data skewed_ops (FloatTensor [0, - 1, 2]))) =
     [Finite (fl_log skewed_ops (fl_round skewed_ops (\<bar>0\<bar> + fl_round skewed_ops log_eps))),
      Finite (fl_log skewed_ops (fl_round skewed_ops (\<bar>- 1\<bar> + fl_round skewed_ops log_eps))),
      Finite (fl_log skewed_ops (fl_round skewed_ops (\<bar>2\<bar> + fl_round skewed_ops log_eps)))] \<and>
   0 < fl_round skewed_ops (\<bar>- 1\<bar> + fl_round skewed_ops log_eps) \<and>
   (2::real) \<le> 2 \<and> (2::real) \<le> 2 ^ 126 \<and>
   within_rtol (1 / 10 ^ 5) (ln 2)
     (fl_log skewed_ops (fl_round skewed_ops (\<bar>2\<bar> + fl_round skewed_ops log_eps)))"
proof -
  note t = logarithm_cpu_path [OF skewed_ops_round(1,2), of 3 "[0, - 1, 2]" 2]
  have a: "(2::real) \<le> 2" and b: "(2::real) \<le> 2 ^ 126" by simp_all
  from t have c: "torch_log skewed_ops
      (slice_to 3 (logarithm_data skewed_ops (FloatTensor [0, - 1, 2]))) =
     [Finite (fl_log skewed_ops (fl_round skewed_ops (\<bar>0\<bar> + fl_round skewed_ops log_eps))),
      Finite (fl_log skewed_ops (fl_round skewed_ops (\<bar>- 1\<bar> + fl_round skewed_ops log_eps))),
      Finite (fl_log skewed_ops (fl_round skewed_ops (\<bar>2\<bar> + fl_round skewed_ops log_eps)))]"
    by simp
  from t have d: "0 < fl_round skewed_ops (\<bar>- 1\<bar> + fl_round skewed_ops log_eps)"
    by blast
  from t skewed_ops_round(3) skewed_ops_log a b
  have w: "within_rtol (1 / 10 ^ 5) (ln 2)
     (fl_log skewed_ops (fl_round skewed_ops (\<bar>2\<bar> + fl_round skewed_ops log_eps)))"
    by blast
  from skewed_ops_round(1,2) c d a b w show ?thesis by blast
qed

text \<open>
  Claim C5 as stated fails at \<open>x = 1\<close>: there the reference \<open>ln 1\<close> is \<open>0\<close>, so only the
  result \<open>0\<close> would be within a relative tolerance of it, and the benchmark's result is the
  logarithm of a number above \<open>1\<close>; without rounding error it is \<open>ln(1 + 1e-7)\<close>.
\<close>

theorem logarithm_rtol_counterexample:
  "torch_log exact_ops (logarithm_data exact_ops (FloatTensor [1])) =
     [Finite (ln (1 + log_eps))] \<and>
   \<not> within_rtol (1 / 10 ^ 5) (ln 1) (ln (1 + log_eps))"
  by (simp add: torch_log_def logarithm_data_def add_scalar_def log_value_def within_rtol_def
        log_eps_def exact_ops_def)

section \<open>The vocabulary lookup\<close>

lemma lookup_seq_eq:
  "lookup_seq w is =
     (if \<forall>i \<in> set is. 0 \<le> i \<and> i < int (length w) then Inr (map (\<lambda>i. w ! nat i) is)
      else Inl IndexError)"
  by (induction "is") (simp_all add: lookup_row_def)

lemma lookup_batch_eq:
  "lookup_batch w rows =
     (if \<forall>row \<in> set rows. \<forall>i \<in> set row. 0 \<le> i \<and> i < int (length w)
      then Inr (map (map (\<lambda>i. w ! nat i)) rows)
      else Inl IndexError)"
  by (induction rows) (simp_all add: lookup_seq_eq)

lemma table_of_row:
  "k < nat num \<Longrightarrow> table_of w num edim ! k = map (\<lambda>j. w k j) [0..<nat edim]"
  by (simp add: table_of_def)

lemma fill_row_zero_Inr:
  assumes "fill_row_zero w i = Inr w'"
  shows "length w' = length w"
    and "\<exists>k. row_index (length w) i = Inr k \<and> k < length w \<and>
           w' = w[k := replicate (length (w ! k)) 0]"
  using assms
  by (auto simp: fill_row_zero_def row_index_def split: sum.splits if_splits)

text \<open>What a successfully built pipeline holds.\<close>

lemma init_Inr:
  assumes "VocabMapperPipeline_init w_rnd xav vsize edim pad = Inr p"
  shows "0 \<le> vsize" and "0 \<le> edim"
    and "length (weight (embedding p)) = nat vsize"
    and "pad = None \<Longrightarrow> weight (embedding p) = table_of xav vsize edim"
    and "pad = Some q \<Longrightarrow>
           \<exists>k. row_index (nat vsize) q = Inr k \<and> k < nat vsize \<and>
               weight (embedding p) = (table_of xav vsize edim)[k := replicate (nat edim) 0]"
proof -
  from assms obtain emb where e: "nn_Embedding w_rnd vsize edim pad = Inr emb"
    by (auto simp: VocabMapperPipeline_init_def split: sum.splits)
  then show v: "0 \<le> vsize" and d: "0 \<le> edim"
    by (auto simp: nn_Embedding_def split: sum.splits if_splits)
  show "length (weight (embedding p)) = nat vsize"
    using assms e
    by (auto simp: VocabMapperPipeline_init_def length_table_of
          split: sum.splits if_splits option.splits dest: fill_row_zero_Inr(1))
  show "pad = None \<Longrightarrow> weight (embedding p) = table_of xav vsize edim"
    using assms e
    by (auto simp: VocabMapperPipeline_init_def split: sum.splits if_splits)
  show "\<exists>k. row_index (nat vsize) q = Inr k \<and> k < nat vsize \<and>
               weight (embedding p) = (table_of xav vsize edim)[k := replicate (nat edim) 0]"
    if "pad = Some q"
  proof -
    from assms e that obtain w where
      f: "fill_row_zero (table_of xav vsize edim) q = Inr w" and
      p: "weight (embedding p) = w"
      by (auto simp: VocabMapperPipeline_init_def split: sum.splits if_splits)
    from fill_row_zero_Inr(2) [OF f] obtain k where
      k: "row_index (nat vsize) q = Inr k" "k < nat vsize"
        "w = (table_of xav vsize edim)[k := replicate (length (table_of xav vsize edim ! k)) 0]"
      by (auto simp: length_table_of)
    from k(2) have "length (table_of xav vsize edim ! k) = nat edim"
      by (simp add: table_of_row)
    with k p show ?thesis by auto
  qed
qed

lemma forward_eq:
  assumes "VocabMapperPipeline_init w_rnd xav vsize edim pad = Inr p"
  shows "forward p rows =
     (if \<forall>row \<in> set rows. \<forall>i \<in> set row. 0 \<le> i \<and> i < vsize
      then Inr (map (map (\<lambda>i. weight (embedding p) ! nat i)) rows)
      else Inl IndexError)"
  using init_Inr(1,3) [OF assms]
  by (simp add: forward_def Embedding_call_def lookup_batch_eq)

text \<open>
  Claim C4.  For a pipeline built with a table of \<open>vocab_size\<close> rows of \<open>embedding_dim\<close>
  entries: the lookup of an index \<open>i\<close> in \<open>[0, vocab_size)\<close> returns row \<open>i\<close> of the table,
  which is the initialised row unless \<open>i\<close> is the padding row; the lookup of a designated
  padding index in that range returns the all-zero row; the lookup of any index outside
  \<open>[0, vocab_size)\<close> fails with \<open>IndexError\<close>, for a single index and for any index inside a
  batch.  (A negative padding index \<open>q\<close> designates row \<open>vocab_size + q\<close>; as an index it is
  itself out of range.)
\<close>

theorem vocab_lookup:
  assumes "VocabMapperPipeline_init w_rnd xav vsize edim pad = Inr p"
  shows "(\<forall>i. 0 \<le> i \<and> i < vsize \<longrightarrow>
            forward p [[i]] = Inr [[weight (embedding p) ! nat i]] \<and>
            (pad \<noteq> Some i \<and> pad \<noteq> Some (i - vsize) \<longrightarrow>
               weight (embedding p) ! nat i = map (xav (nat i)) [0..<nat edim])) \<and>
         (\<forall>q. pad = Some q \<and> 0 \<le> q \<longrightarrow>
            q < vsize \<and> forward p [[q]] = Inr [[replicate (nat edim) 0]]) \<and>
         (\<forall>q. pad = Some q \<and> q < 0 \<longrightarrow>
            forward p [[vsize + q]] = Inr [[replicate (nat edim) 0]]) \<and>
         (\<forall>i. i < 0 \<or> vsize \<le> i \<longrightarrow> forward p [[i]] = Inl IndexError) \<and>
         (\<forall>rows. forward p rows =
            (if \<forall>row \<in> set rows. \<forall>i \<in> set row. 0 \<le> i \<and> i < vsize
             then Inr (map (map (\<lambda>i. weight (embedding p) ! nat i)) rows)
             else Inl IndexError))"
proof (intro conjI allI impI)
  fix i assume i: "0 \<le> i \<and> i < vsize"
  then show "forward p [[i]] = Inr [[weight (embedding p) ! nat i]]"
    by (simp add: forward_eq [OF assms])
  assume np: "pad \<noteq> Some i \<and> pad \<noteq> Some (i - vsize)"
  show "weight (embedding p) ! nat i = map (xav (nat i)) [0..<nat edim]"
  proof (cases pad)
    case None
    with init_Inr(4) [OF assms] i show ?thesis by (simp add: table_of_row)
  next
    case (Some q)
    from init_Inr(5) [OF assms Some] obtain k where
      k: "row_index (nat vsize) q = Inr k" "k < nat vsize"
         "weight (embedding p) = (table_of xav vsize edim)[k := replicate (nat edim) 0]"
      by blast
    from k(1) np Some i have "k \<noteq> nat i"
      by (auto simp: row_index_def split: if_splits)
    with k(3) i show ?thesis by (simp add: table_of_row)
  qed
next
  fix q assume q: "pad = Some q \<and> 0 \<le> q"
  from init_Inr(5) [OF assms, of q] q obtain k where
    k: "row_index (nat vsize) q = Inr k" "k < nat vsize"
       "weight (embedding p) = (table_of xav vsize edim)[k := replicate (nat edim) 0]"
    by blast
  from k(1) q have kq: "k = nat q" and lt: "q < vsize"
    by (auto simp: row_index_def split: if_splits)
  show "q < vsize" by (rule lt)
  from k(2,3) kq q lt
  show "forward p [[q]] = Inr [[replicate (nat edim) 0]]"
    by (simp add: forward_eq [OF assms] length_table_of)
next
  fix q assume q: "pad = Some q \<and> q < 0"
  from init_Inr(5) [OF assms, of q] q obtain k where
    k: "row_index (nat vsize) q = Inr k" "k < nat vsize"
       "weight (embedding p) = (table_of xav vsize edim)[k := replicate (nat edim) 0]"
    by blast
  from k(1) q have kq: "k = nat (vsize + q)" and ge: "0 \<le> vsize + q"
    by (auto simp: row_index_def split: if_splits)
  from k(2,3) kq q ge
  show "forward p [[vsize + q]] = Inr [[replicate (nat edim) 0]]"
    by (simp add: forward_eq [OF assms] length_table_of)
next
  fix i :: int assume "i < 0 \<or> vsize \<le> i"
  then show "forward p [[i]] = Inl IndexError"
    by (auto simp: forward_eq [OF assms])
next
  fix rows
  show "forward p rows =
            (if \<forall>row \<in> set rows. \<forall>i \<in> set row. 0 \<le> i \<and> i < vsize
             then Inr (map (map (\<lambda>i. weight (embedding p) ! nat i)) rows)
             else Inl IndexError)"
    by (rule forward_eq [OF assms])
qed

lemma demo_pipeline:
  "VocabMapperPipeline_init zero_table demo_xav 3 2 (Some 1) =
     Inr \<lparr> vocab_size = 3, embedding_dim = 2,
           embedding = \<lparr> num_embeddings = 3, emb_dim = 2, padding_idx = Some 1,
                         weight = [[1, 2], [0, 0], [21, 22]] \<rparr> \<rparr>"
  by (simp add: VocabMapperPipeline_init_def nn_Embedding_def normalise_padding_def
        fill_row_zero_def row_index_def table_of_def demo_xav_def zero_table_def upt_rec)

theorem vocab_lookup_witness:
  "VocabMapperPipeline_init zero_table demo_xav 3 2 (Some 1) =
     Inr \<lparr> vocab_size = 3, embedding_dim = 2,
           embedding = \<lparr> num_embeddings = 3, emb_dim = 2, padding_idx = Some 1,
                         weight = [[1, 2], [0, 0], [21, 22]] \<rparr> \<rparr> \<and>
   forward \<lparr> vocab_size = 3, embedding_dim = 2,
             embedding = \<lparr> num_embeddings = 3, emb_dim = 2, padding_idx = Some 1,
                           weight = [[1, 2], [0, 0], [21, 22]] \<rparr> \<rparr> [[2]] = Inr [[[21, 22]]] \<and>
   forward \<lparr> vocab_size = 3, embedding_dim = 2,
             embedding = \<lparr> num_embeddings = 3, emb_dim = 2, padding_idx = Some 1,
                           weight = [[1, 2], [0, 0], [21, 22]] \<rparr> \<rparr> [[1]] = Inr [[[0, 0]]] \<and>
   forward \<lparr> vocab_size = 3, embedding_dim = 2,
             embedding = \<lparr> num_embeddings = 3, emb_dim = 2, padding_idx = Some 1,
                           weight = [[1, 2], [0, 0], [21, 22]] \<rparr> \<rparr> [[3]] = Inl IndexError \<and>
   forward \<lparr> vocab_size = 3, embedding_dim = 2,
             embedding = \<lparr> num_embeddings = 3, emb_dim = 2, padding_idx = Some 1,
                           weight = [[1, 2], [0, 0], [21, 22]] \<rparr> \<rparr> [[- 1]] = Inl IndexError"
proof -
  note t = vocab_lookup [OF demo_pipeline]
  from t have a: "forward \<lparr> vocab_size = 3, embedding_dim = 2,
             embedding = \<lparr> num_embeddings = 3, emb_dim = 2, padding_idx = Some 1,
                           weight = [[1, 2], [0, 0], [21, 22]] \<rparr> \<rparr> [[2]] = Inr [[[21, 22]]]"
    by simp
  from t have b: "forward \<lparr> vocab_size = 3, embedding_dim = 2,
             embedding = \<lparr> num_embeddings = 3, emb_dim = 2, padding_idx = Some 1,
                           weight = [[1, 2], [0, 0], [21, 22]] \<rparr> \<rparr> [[1]] = Inr [[[0, 0]]]"
    by simp
  from t have c: "forward \<lparr> vocab_size = 3, embedding_dim = 2,
             embedding = \<lparr> num_embeddings = 3, emb_dim = 2, padding_idx = Some 1,
                           weight = [[1, 2], [0, 0], [21, 22]] \<rparr> \<rparr> [[3]] = Inl IndexError"
    by simp
  from t have d: "forward \<lparr> vocab_size = 3, embedding_dim = 2,
             embedding = \<lparr> num_embeddings = 3, emb_dim = 2, padding_idx = Some 1,
                           weight = [[1, 2], [0, 0], [21, 22]] \<rparr> \<rparr> [[- 1]] = Inl IndexError"
    by simp
  from demo_pipeline a b c d show ?thesis by blast
qed

section \<open>Failures while the report is written\<close>

lemma dump_chunks_Some:
  "dump_chunks cs (Some k) acc = (acc @ concat (take k cs), length cs \<le> k)"
proof (induction cs arbitrary: k acc)
  case Nil
  then show ?case by simp
next
  case (Cons c cs)
  show ?case
  proof (cases k)
    case 0
    then show ?thesis by simp
  next
    case (Suc n)
    then show ?thesis by (simp add: Cons.IH)
  qed
qed

lemma dump_chunks_None: "dump_chunks cs None acc = (acc @ concat cs, True)"
  by (induction cs arbitrary: acc) simp_all

lemma write_json_fault:
  "fault_fires fault chunks \<Longrightarrow> snd (write_json fault chunks path files) = Inl OSError"
  by (cases fault) (simp_all add: write_json_def dump_chunks_Some)

lemma write_json_ok:
  "snd (write_json fault chunks path files) = Inr u \<Longrightarrow>
   \<not> fault_fires fault chunks \<and> fst (write_json fault chunks path files) path = Some (concat chunks)"
  by (cases fault) (auto simp: write_json_def dump_chunks_Some dump_chunks_None split: if_splits)

text \<open>
  Claim C8.  When the operating system fails while the report is written (at the open, at
  the write of a chunk, or at the close), \<open>save_results\<close> ends with the error and so does
  \<open>main\<close>, which then does not return the exit code 0.  Whenever \<open>save_results\<close> returns
  normally no failure has occurred and the file holds the complete serialisation of the
  report.  The source writes to the target path itself: after a failure the truncated file
  is on disk, and the raised error is what marks it as not valid.
\<close>

theorem report_failure_surfaced:
  "(fault_fires fault (enc (report_of s ts)) \<longrightarrow>
      snd (save_results enc fault s ts path files) = Inl OSError) \<and>
   (snd (save_results enc fault s ts path files) = Inr () \<longrightarrow>
      \<not> fault_fires fault (enc (report_of s ts)) \<and>
      fst (save_results enc fault s ts path files) path = Some (concat (enc (report_of s ts)))) \<and>
   (run_full_suite avail (suite_init avail (device_string (arg_device args)) True) env
        (size_map (arg_size args)) (arg_iterations args) = Inr (s1, rs, tr) \<and>
    arg_output args = Some path \<and> fault_fires fault (enc (report_of s1 ts)) \<longrightarrow>
      snd (bench_main avail env enc fault ts args files) = Inl OSError)"
proof (intro conjI impI)
  assume "fault_fires fault (enc (report_of s ts))"
  then show "snd (save_results enc fault s ts path files) = Inl OSError"
    by (simp add: save_results_def write_json_fault)
next
  assume ok: "snd (save_results enc fault s ts path files) = Inr ()"
  then show "\<not> fault_fires fault (enc (report_of s ts))"
    using write_json_ok [of fault "enc (report_of s ts)" path files "()"]
    by (simp add: save_results_def)
  from ok show "fst (save_results enc fault s ts path files) path =
      Some (concat (enc (report_of s ts)))"
    using write_json_ok [of fault "enc (report_of s ts)" path files "()"]
    by (simp add: save_results_def)
next
  assume h: "run_full_suite avail (suite_init avail (device_string (arg_device args)) True) env
        (size_map (arg_size args)) (arg_iterations args) = Inr (s1, rs, tr) \<and>
    arg_output args = Some path \<and> fault_fires fault (enc (report_of s1 ts))"
  then have "snd (save_results enc fault s1 ts path files) = Inl OSError"
    by (simp add: save_results_def write_json_fault)
  with h show "snd (bench_main avail env enc fault ts args files) = Inl OSError"
    by (auto simp: bench_main_def split: prod.splits sum.splits)
qed

theorem report_failure_surfaced_witness:
  "fault_fires (WriteFails 1) (demo_report_enc (report_of (suite_init False ''cpu'' True) ''t'')) \<and>
   save_results demo_report_enc (WriteFails 1) (suite_init False ''cpu'' True) ''t'' ''out.json''
       Map.empty =
     ([''out.json'' \<mapsto> ''{''], Inl OSError) \<and>
   save_results demo_report_enc NoFault (suite_init False ''cpu'' True) ''t'' ''out.json''
       Map.empty =
     ([''out.json'' \<mapsto> ''{cpu}''], Inr ()) \<and>
   (\<exists>s1 rs tr.
      run_full_suite False (suite_init False (device_string Dev_cpu) True) demo_env
        (size_map Small) 100 = Inr (s1, rs, tr) \<and>
      fault_fires OpenFails (demo_report_enc (report_of s1 ''t'')) \<and>
      snd (bench_main False demo_env demo_report_enc OpenFails ''t''
             \<lparr> arg_device = Dev_cpu, arg_size = Small, arg_iterations = 100,
               arg_output = Some ''out.json'' \<rparr> Map.empty) = Inl OSError)"
proof -
  have a: "fault_fires (WriteFails 1)
      (demo_report_enc (report_of (suite_init False ''cpu'' True) ''t''))"
    by (simp add: demo_report_enc_def)
  have b: "save_results demo_report_enc (WriteFails 1) (suite_init False ''cpu'' True) ''t''
       ''out.json'' Map.empty = ([''out.json'' \<mapsto> ''{''], Inl OSError)"
    using report_failure_surfaced [of "WriteFails 1" demo_report_enc
        "suite_init False ''cpu'' True" "''t''" "''out.json''" Map.empty] a
    by (simp add: save_results_def write_json_def demo_report_enc_def report_of_def
          suite_init_def)
  have c: "save_results demo_report_enc NoFault (suite_init False ''cpu'' True) ''t''
       ''out.json'' Map.empty = ([''out.json'' \<mapsto> ''{cpu}''], Inr ())"
    by (simp add: save_results_def write_json_def demo_report_enc_def report_of_def
          suite_init_def)
  from demo_run_cpu obtain s1 rs tr where
    h: "run_full_suite False (suite_init False (device_string Dev_cpu) True) demo_env
        (size_map Small) 100 = Inr (s1, rs, tr)"
    by auto
  have f: "fault_fires OpenFails (demo_report_enc (report_of s1 ''t''))" by simp
  from report_failure_surfaced [of OpenFails demo_report_enc s1 "''t''" "''out.json''"
      Map.empty False
      "\<lparr> arg_device = Dev_cpu, arg_size = Small, arg_iterations = 100,
         arg_output = Some ''out.json'' \<rparr>" demo_env s1 rs tr] h f
  have d: "snd (bench_main False demo_env demo_report_enc OpenFails ''t''
             \<lparr> arg_device = Dev_cpu, arg_size = Small, arg_iterations = 100,
               arg_output = Some ''out.json'' \<rparr> Map.empty) = Inl OSError"
    by simp
  from a b c h f d show ?thesis by blast
qed

section \<open>The telemetry poller\<close>

text \<open>The failures the handlers catch leave a sample with null or no data for that source.\<close>

lemma handled_failures_recover:
  assumes "sensor = SensorMissing \<or> sensor = SensorValue v"
    and "tool = TimeoutExpired \<or> tool = ToolNotFound \<or> tool = Completed 0 None \<or>
         (tool = Completed rc out \<and> rc \<noteq> 0)"
  shows "collect_metrics history now sensor tool =
     Inr (history @ [[(JStr ''timestamp'', JStr now),
                      (JStr ''temperature_c'',
                       (case sensor of SensorValue t \<Rightarrow> JNum (real_of_int t / 1000) | _ \<Rightarrow> JNull))]],
          [(JStr ''timestamp'', JStr now),
           (JStr ''temperature_c'',
            (case sensor of SensorValue t \<Rightarrow> JNum (real_of_int t / 1000) | _ \<Rightarrow> JNull))])"
  using assms
  by (auto simp: collect_metrics_def get_system_metrics_def get_tt_smi_metrics_def
        dict_update_def)

lemma collect_appends_one:
  "collect_metrics history now sensor tool = Inr (history', m) \<Longrightarrow> history' = history @ [m]"
  by (auto simp: collect_metrics_def split: sum.splits)

text \<open>
  While every tick has only handled failures, every tick appends one sample and the loop
  keeps polling: the history grows by exactly the number of ticks.
\<close>

lemma handled_tick_collect:
  assumes "handled_tick t"
  shows "\<exists>m. collect_metrics history (now_iso t) (sensor_now t) (tool_now t) =
           Inr (history @ [m], m) \<and> print_metrics m = Inr ()"
  using assms
  by (auto simp: handled_tick_def collect_metrics_def get_system_metrics_def
        get_tt_smi_metrics_def dict_update_def print_metrics_def print_field_def
        split: sensor_read.splits proc_outcome.splits option.splits)

lemma handled_ticks_all_sampled:
  assumes "\<forall>t \<in> set ts. handled_tick t" and "0 \<le> interval"
  shows "\<exists>samples. monitor_loop interval None start_time ts history =
           (history @ samples, StillPolling) \<and> length samples = length ts"
  using assms(1)
proof (induction ts arbitrary: history)
  case Nil
  then show ?case by simp
next
  case (Cons t ts)
  from Cons.prems have ht: "handled_tick t" and rest: "\<forall>t \<in> set ts. handled_tick t"
    by simp_all
  from handled_tick_collect [OF ht, of history] obtain m where
    c: "collect_metrics history (now_iso t) (sensor_now t) (tool_now t) = Inr (history @ [m], m)"
    and p: "print_metrics m = Inr ()" by blast
  from Cons.IH [OF rest, of "history @ [m]"] obtain samples where
    s: "monitor_loop interval None start_time ts (history @ [m]) =
          ((history @ [m]) @ samples, StillPolling)"
    and l: "length samples = length ts" by blast
  from ht have i: "interrupt t = NoInterrupt" by (simp add: handled_tick_def)
  have "monitor_loop interval None start_time (t # ts) history =
          (history @ (m # samples), StillPolling)"
    using c p s i assms(2) by (simp add: duration_reached_def)
  with l show ?case by (intro exI [of _ "m # samples"]) simp
qed

text \<open>
  Claim C6.  A tick in which the diagnostic tool exits with 0 and prints \<open>null\<close>, valid
  JSON that is not an object, raises \<open>TypeError\<close> in \<open>metrics.update\<close>: no sample is
  appended and the polling loop ends with the exception.
\<close>

theorem null_payload_aborts_poll:
  "get_tt_smi_metrics (Completed 0 (Some JNull)) = Inr JNull \<and>
   collect_metrics [] ''2024-01-01T00:00:00'' SensorMissing (Completed 0 (Some JNull)) =
     Inl TypeError \<and>
   monitor 1 None 0 [null_tick, bare_tick] = ([], Raised TypeError)"
  by (simp add: get_tt_smi_metrics_def collect_metrics_def get_system_metrics_def
        dict_update_def monitor_def null_tick_def)

text \<open>A duration of zero is falsy in the loop's test, so it never ends the loop.\<close>

lemma zero_duration_never_reached: "duration_reached (Some 0) elapsed = False"
  by (simp add: duration_reached_def)

text \<open>
  Once the loop has ended by the duration bound or by an interrupt, \<open>main\<close> calls
  \<open>save_history\<close> exactly once when an output path is configured, with the whole history.
\<close>

lemma monitor_main_saves_once:
  assumes "monitor (arg_interval args) (arg_duration args) start ticks = (history, e)"
    and "e = DurationReached \<or> e = Interrupted"
    and "arg_mon_output args = Some path"
  shows "fst (snd (monitor_main enc fault args start ticks files)) = [(path, history)]"
  using assms by (auto simp: monitor_main_def split: prod.splits sum.splits)

text \<open>
  Claim C7.  With an output path configured and no interrupt and no duration bound, the
  tick whose tool output is \<open>null\<close> ends the loop and the process with \<open>TypeError\<close>;
  \<open>save_history\<close> is never called and no file is written.
\<close>

theorem null_payload_ends_monitor_unsaved:
  "monitor_main one_chunk NoFault
     \<lparr> arg_interval = 1, arg_duration = None, arg_mon_output = Some ''metrics.json'' \<rparr>
     0 [bare_tick, null_tick, bare_tick] Map.empty =
   (Map.empty, [], Aborted TypeError)"
  by (simp add: monitor_main_def monitor_def null_tick_def bare_tick_def collect_metrics_def
        get_system_metrics_def get_tt_smi_metrics_def dict_update_def print_metrics_def
        print_field_def duration_reached_def)

end
